theory Spec2Isabelle
  imports Main "HOL-Library.Word"
begin

section \<open>Window Merge: the widget surgery of merge.c\<close>

text \<open>
  merge.c of the Window Merge plugin moves the notebook of a conversation window into
  the Buddy List window, migrates the conversation menu items, and keeps the size of
  the Buddy List pane as a preference. Everything it does is a call into the toolkit or
  the host on shared, mutable objects, so the model is an explicit store: one record of
  the toolkit's state, indexed by object addresses, passed through every call and
  returned updated. A dereference of a NULL structure pointer ends the C program; here
  it is the result \<open>None\<close>.
\<close>

subsection \<open>Data\<close>

type_synonym gint = "32 word"
type_synonym wid = nat  \<comment> \<open>address of a GObject (a widget)\<close>
type_synonym cwid = nat \<comment> \<open>address of a PidginWindow structure\<close>

datatype widget_kind =
  GtkWindow | GtkBox | GtkNotebook | GtkMenuBar | GtkMenuItem | GtkMenu
  | GtkVPaned | GtkHPaned | GtkLabel

text \<open>The three fields of the host's PidginBuddyList that merge.c reads; it writes none.\<close>

record PidginBuddyList =
  bl_window :: wid
  bl_notebook :: wid
  bl_menutray :: wid

text \<open>The fields of the host's PidginWindow that merge.c uses (\<open>menu.menubar\<close> flattened).\<close>

record PidginWindow =
  cw_window :: "wid option"
  cw_notebook :: wid
  cw_menubar :: wid

text \<open>What a \<open>gpointer\<close> handed to the toolkit points at; NULL is \<open>None\<close>.\<close>

datatype gpointer =
  Widget wid
  | ConvWin cwid
  | Blist PidginBuddyList
  | Str string
  | GList "wid list"

text \<open>The three callbacks of merge.c, as the function pointers given to the toolkit.\<close>

datatype GCallback = CB_notify_position | CB_notify_max_position | CB_focus_in_event

text \<open>A signal connection: instance, detailed signal, callback, user data.\<close>

datatype handler = Handler wid string GCallback "gpointer option"

text \<open>
  Modelled from the spec: plugin.h, which defines PREF\_WIDTH, PREF\_HEIGHT and
  PREF\_SIDE, is not among the sources. The spec lists exactly these keys: pane width
  and pane height, integer-valued, and pane placement side, string-valued.
\<close>

datatype int_pref = PREF_WIDTH | PREF_HEIGHT

datatype string_pref = PREF_SIDE

text \<open>
  Modelled from the spec: the dummy conversation (the instructions tab) is handled by
  \<open>pwm_init_dummy_conversation\<close>, \<open>pwm_show_dummy_conversation\<close> and
  \<open>pwm_free_dummy_conversation\<close>, none of which is among the sources and none of
  which the spec describes. They are taken to act on a component of their own.
\<close>

datatype dummy_status = NoDummy | DummyHidden | DummyShown

record gtk_state =
  next_obj :: nat                                 \<comment> \<open>the next free object address\<close>
  kind :: "wid \<Rightarrow> widget_kind"
  parent :: "wid \<Rightarrow> wid option"
  children :: "wid \<Rightarrow> wid list"                 \<comment> \<open>boxes, menu bars, windows\<close>
  paned_child1 :: "wid \<Rightarrow> wid option"
  paned_child2 :: "wid \<Rightarrow> wid option"
  visible :: "wid \<Rightarrow> bool"
  destroyed :: "wid \<Rightarrow> bool"
  object_data :: "wid \<Rightarrow> string \<Rightarrow> gpointer option"
  title :: "wid \<Rightarrow> string option"
  icon_list :: "wid \<Rightarrow> nat list"
  accel_groups :: "wid \<Rightarrow> nat set"
  submenu :: "wid \<Rightarrow> wid option"
  menu_accel_group :: "wid \<Rightarrow> nat option"
  position :: "wid \<Rightarrow> gint"
  position_set :: "wid \<Rightarrow> bool"
  max_position :: "wid \<Rightarrow> gint"
  child_resize :: "wid \<Rightarrow> bool"
  handlers :: "handler list"
  next_win :: nat                                 \<comment> \<open>the next free PidginWindow address\<close>
  windows :: "cwid \<Rightarrow> PidginWindow option"
  conv_menu_layout :: "bool list"                 \<comment> \<open>the host's conversation menu\<close>
  imhtml_skipped :: "(nat \<times> nat) set"             \<comment> \<open>skipped entries of the GtkIMHtml binding set\<close>
  prefs_int :: "int_pref \<Rightarrow> gint"
  prefs_string :: "string_pref \<Rightarrow> string option"
  dummy_conversation :: "wid \<Rightarrow> dummy_status"

subsection \<open>GObject: data and signals\<close>

definition g_object_get_data :: "gtk_state \<Rightarrow> wid \<Rightarrow> string \<Rightarrow> gpointer option" where
  "g_object_get_data s obj key = object_data s obj key"

definition g_object_set_data ::
  "gtk_state \<Rightarrow> wid \<Rightarrow> string \<Rightarrow> gpointer option \<Rightarrow> gtk_state" where
  "g_object_set_data s obj key v =
     s\<lparr>object_data := (object_data s)(obj := (object_data s obj)(key := v))\<rparr>"

definition g_object_steal_data :: "gtk_state \<Rightarrow> wid \<Rightarrow> string \<Rightarrow> gtk_state" where
  "g_object_steal_data s obj key =
     s\<lparr>object_data := (object_data s)(obj := (object_data s obj)(key := None))\<rparr>"

text \<open>\<open>g_object_connect(obj, "signal::<name>", cb, data, NULL)\<close>.\<close>

definition g_object_connect ::
  "gtk_state \<Rightarrow> wid \<Rightarrow> string \<Rightarrow> GCallback \<Rightarrow> gpointer option \<Rightarrow> gtk_state" where
  "g_object_connect s obj sig cb data = s\<lparr>handlers := handlers s @ [Handler obj sig cb data]\<rparr>"

fun matches_any_signal :: "wid \<Rightarrow> GCallback \<Rightarrow> gpointer option \<Rightarrow> handler \<Rightarrow> bool" where
  "matches_any_signal obj cb data (Handler obj' sig' cb' data') =
     (obj' = obj \<and> cb' = cb \<and> data' = data)"

text \<open>\<open>g_object_disconnect(obj, "any_signal", cb, data, NULL)\<close>: every connection of
  that callback with that data on the instance goes, whatever its signal.\<close>

definition g_object_disconnect ::
  "gtk_state \<Rightarrow> wid \<Rightarrow> GCallback \<Rightarrow> gpointer option \<Rightarrow> gtk_state" where
  "g_object_disconnect s obj cb data =
     s\<lparr>handlers := filter (\<lambda>h. \<not> matches_any_signal obj cb data h) (handlers s)\<rparr>"

fun handler_object :: "handler \<Rightarrow> wid" where
  "handler_object (Handler obj sig cb data) = obj"

text \<open>A new object: a fresh address, with every per-object component initialised.\<close>

definition g_object_new :: "gtk_state \<Rightarrow> widget_kind \<Rightarrow> wid \<times> gtk_state" where
  "g_object_new s k =
     (let w = next_obj s in
      (w, s\<lparr>next_obj := Suc w,
            kind := (kind s)(w := k),
            parent := (parent s)(w := None),
            children := (children s)(w := []),
            paned_child1 := (paned_child1 s)(w := None),
            paned_child2 := (paned_child2 s)(w := None),
            visible := (visible s)(w := False),
            destroyed := (destroyed s)(w := False),
            object_data := (object_data s)(w := (\<lambda>_. None)),
            title := (title s)(w := None),
            icon_list := (icon_list s)(w := []),
            accel_groups := (accel_groups s)(w := {}),
            submenu := (submenu s)(w := None),
            menu_accel_group := (menu_accel_group s)(w := None),
            position := (position s)(w := 0),
            position_set := (position_set s)(w := False),
            max_position := (max_position s)(w := 0),
            child_resize := (child_resize s)(w := True),
            handlers := filter (\<lambda>h. handler_object h \<noteq> w) (handlers s)\<rparr>))"

subsection \<open>Widgets and containers\<close>

definition gtk_widget_get_parent :: "gtk_state \<Rightarrow> wid \<Rightarrow> wid option" where
  "gtk_widget_get_parent s w = parent s w"

definition gtk_widget_show :: "gtk_state \<Rightarrow> wid \<Rightarrow> gtk_state" where
  "gtk_widget_show s w = s\<lparr>visible := (visible s)(w := True)\<rparr>"

definition gtk_widget_hide :: "gtk_state \<Rightarrow> wid \<Rightarrow> gtk_state" where
  "gtk_widget_hide s w = s\<lparr>visible := (visible s)(w := False)\<rparr>"

definition GTK_IS_VPANED :: "gtk_state \<Rightarrow> wid \<Rightarrow> bool" where
  "GTK_IS_VPANED s w = (kind s w = GtkVPaned)"

definition GTK_IS_PANED :: "gtk_state \<Rightarrow> wid \<Rightarrow> bool" where
  "GTK_IS_PANED s w = (kind s w = GtkVPaned \<or> kind s w = GtkHPaned)"

definition GTK_IS_MENU_ITEM :: "gtk_state \<Rightarrow> wid \<Rightarrow> bool" where
  "GTK_IS_MENU_ITEM s w = (kind s w = GtkMenuItem)"

definition GTK_IS_MENU :: "gtk_state \<Rightarrow> wid \<Rightarrow> bool" where
  "GTK_IS_MENU s w = (kind s w = GtkMenu)"

definition gtk_vpaned_new :: "gtk_state \<Rightarrow> wid \<times> gtk_state" where
  "gtk_vpaned_new s = g_object_new s GtkVPaned"

definition gtk_hpaned_new :: "gtk_state \<Rightarrow> wid \<times> gtk_state" where
  "gtk_hpaned_new s = g_object_new s GtkHPaned"

definition gtk_label_new :: "gtk_state \<Rightarrow> wid \<times> gtk_state" where
  "gtk_label_new s = g_object_new s GtkLabel"

definition gtk_container_get_children :: "gtk_state \<Rightarrow> wid \<Rightarrow> wid list" where
  "gtk_container_get_children s c =
     (if GTK_IS_PANED s c
      then (case paned_child1 s c of None \<Rightarrow> [] | Some a \<Rightarrow> [a])
           @ (case paned_child2 s c of None \<Rightarrow> [] | Some b \<Rightarrow> [b])
      else children s c)"

definition gtk_paned_get_child1 :: "gtk_state \<Rightarrow> wid \<Rightarrow> wid option" where
  "gtk_paned_get_child1 s p = paned_child1 s p"

definition gtk_paned_get_child2 :: "gtk_state \<Rightarrow> wid \<Rightarrow> wid option" where
  "gtk_paned_get_child2 s p = paned_child2 s p"

text \<open>\<open>gtk_container_add\<close>: a widget that already has a parent is refused; a paned
  takes the widget into its first free pane and refuses a third; any other container
  appends.\<close>

definition gtk_container_add :: "gtk_state \<Rightarrow> wid \<Rightarrow> wid \<Rightarrow> gtk_state" where
  "gtk_container_add s c w =
     (if parent s w \<noteq> None then s
      else if GTK_IS_PANED s c then
        (if paned_child1 s c = None
         then s\<lparr>parent := (parent s)(w := Some c),
                paned_child1 := (paned_child1 s)(c := Some w)\<rparr>
         else if paned_child2 s c = None
         then s\<lparr>parent := (parent s)(w := Some c),
                paned_child2 := (paned_child2 s)(c := Some w)\<rparr>
         else s)
      else s\<lparr>parent := (parent s)(w := Some c),
             children := (children s)(c := children s c @ [w])\<rparr>)"

definition gtk_container_remove :: "gtk_state \<Rightarrow> wid \<Rightarrow> wid \<Rightarrow> gtk_state" where
  "gtk_container_remove s c w =
     (if parent s w \<noteq> Some c then s
      else if GTK_IS_PANED s c then
        s\<lparr>parent := (parent s)(w := None),
          paned_child1 := (paned_child1 s)
             (c := if paned_child1 s c = Some w then None else paned_child1 s c),
          paned_child2 := (paned_child2 s)
             (c := if paned_child1 s c \<noteq> Some w \<and> paned_child2 s c = Some w
                   then None else paned_child2 s c)\<rparr>
      else s\<lparr>parent := (parent s)(w := None),
             children := (children s)(c := remove1 w (children s c))\<rparr>)"

text \<open>\<open>gtk_widget_reparent\<close>: nothing happens without a new parent, for a widget
  that has no parent, or when the parent is the new one already.\<close>

definition gtk_widget_reparent :: "gtk_state \<Rightarrow> wid \<Rightarrow> wid option \<Rightarrow> gtk_state" where
  "gtk_widget_reparent s w new_parent =
     (case new_parent of
        None \<Rightarrow> s
      | Some np \<Rightarrow>
          (case parent s w of
             None \<Rightarrow> s
           | Some old \<Rightarrow>
               if old = np then s
               else gtk_container_add (gtk_container_remove s old w) np w))"

text \<open>\<open>gtk_widget_destroy\<close>: the widget leaves its container and is gone, and
  with it its signal connections. The children of a destroyed container are not
  followed.\<close>

definition gtk_widget_destroy :: "gtk_state \<Rightarrow> wid \<Rightarrow> gtk_state" where
  "gtk_widget_destroy s w =
     (let s1 = (case parent s w of None \<Rightarrow> s | Some p \<Rightarrow> gtk_container_remove s p w)
      in s1\<lparr>destroyed := (destroyed s1)(w := True),
            handlers := filter (\<lambda>h. handler_object h \<noteq> w) (handlers s1)\<rparr>)"

definition gtk_container_child_set_property_resize ::
  "gtk_state \<Rightarrow> wid \<Rightarrow> wid \<Rightarrow> bool \<Rightarrow> gtk_state" where
  "gtk_container_child_set_property_resize s c w v =
     (if parent s w = Some c then s\<lparr>child_resize := (child_resize s)(w := v)\<rparr> else s)"

definition gtk_window_get_title :: "gtk_state \<Rightarrow> wid \<Rightarrow> string option" where
  "gtk_window_get_title s w = title s w"

definition gtk_window_set_title :: "gtk_state \<Rightarrow> wid \<Rightarrow> string option \<Rightarrow> gtk_state" where
  "gtk_window_set_title s w t = s\<lparr>title := (title s)(w := t)\<rparr>"

definition gtk_window_set_icon_list :: "gtk_state \<Rightarrow> wid \<Rightarrow> nat list \<Rightarrow> gtk_state" where
  "gtk_window_set_icon_list s w l = s\<lparr>icon_list := (icon_list s)(w := l)\<rparr>"

definition gtk_menu_item_get_submenu :: "gtk_state \<Rightarrow> wid \<Rightarrow> wid option" where
  "gtk_menu_item_get_submenu s item = submenu s item"

definition gtk_menu_get_accel_group :: "gtk_state \<Rightarrow> wid \<Rightarrow> nat option" where
  "gtk_menu_get_accel_group s m = menu_accel_group s m"

definition gtk_window_add_accel_group :: "gtk_state \<Rightarrow> wid \<Rightarrow> nat option \<Rightarrow> gtk_state" where
  "gtk_window_add_accel_group s w g =
     (case g of None \<Rightarrow> s
      | Some a \<Rightarrow> s\<lparr>accel_groups := (accel_groups s)(w := insert a (accel_groups s w))\<rparr>)"

definition gtk_window_remove_accel_group :: "gtk_state \<Rightarrow> wid \<Rightarrow> nat option \<Rightarrow> gtk_state" where
  "gtk_window_remove_accel_group s w g =
     (case g of None \<Rightarrow> s
      | Some a \<Rightarrow> s\<lparr>accel_groups := (accel_groups s)(w := accel_groups s w - {a})\<rparr>)"

text \<open>Key symbols and the modifier mask of gdkkeysyms.h and gdktypes.h.\<close>

definition GDK_Up :: nat where "GDK_Up = 0xFF52"
definition GDK_Down :: nat where "GDK_Down = 0xFF54"
definition GDK_Page_Up :: nat where "GDK_Page_Up = 0xFF55"
definition GDK_Page_Down :: nat where "GDK_Page_Down = 0xFF56"
definition GDK_KP_Page_Up :: nat where "GDK_KP_Page_Up = 0xFF9A"
definition GDK_KP_Page_Down :: nat where "GDK_KP_Page_Down = 0xFF9B"
definition GDK_CONTROL_MASK :: nat where "GDK_CONTROL_MASK = 4"

text \<open>\<open>gtk_binding_entry_skip\<close> on the binding set of the GtkIMHtml class, the only
  binding set merge.c touches.\<close>

definition gtk_binding_entry_skip :: "gtk_state \<Rightarrow> nat \<Rightarrow> nat \<Rightarrow> gtk_state" where
  "gtk_binding_entry_skip s keyval modifiers =
     s\<lparr>imhtml_skipped := insert (keyval, modifiers) (imhtml_skipped s)\<rparr>"

subsection \<open>Preferences\<close>

definition purple_prefs_get_int :: "gtk_state \<Rightarrow> int_pref \<Rightarrow> gint" where
  "purple_prefs_get_int s k = prefs_int s k"

definition purple_prefs_set_int :: "gtk_state \<Rightarrow> int_pref \<Rightarrow> gint \<Rightarrow> gtk_state" where
  "purple_prefs_set_int s k v = s\<lparr>prefs_int := (prefs_int s)(k := v)\<rparr>"

definition purple_prefs_get_string :: "gtk_state \<Rightarrow> string_pref \<Rightarrow> string option" where
  "purple_prefs_get_string s k = prefs_string s k"

subsection \<open>The paned slider\<close>

definition gtk_paned_get_position :: "gtk_state \<Rightarrow> wid \<Rightarrow> gint" where
  "gtk_paned_get_position s p = position s p"

definition g_object_get_max_position :: "gtk_state \<Rightarrow> wid \<Rightarrow> gint" where
  "g_object_get_max_position s p = max_position s p"

subsection \<open>merge.c: the slider callbacks\<close>

definition notify_position_cb :: "gtk_state \<Rightarrow> wid \<Rightarrow> PidginBuddyList \<Rightarrow> gtk_state" where
  "notify_position_cb s gobject gtkblist =
     (let size0 = gtk_paned_get_position s gobject;
          size = (if gtk_paned_get_child1 s gobject \<noteq> Some (bl_notebook gtkblist)
                  then g_object_get_max_position s gobject - size0
                  else size0)
      in if GTK_IS_VPANED s gobject
         then purple_prefs_set_int s PREF_HEIGHT size
         else purple_prefs_set_int s PREF_WIDTH size)"

text \<open>
  The toolkit announces a change of the slider by the signal \<open>notify::position\<close>.
  \<open>notify_position_cb\<close> is the only callback merge.c ever connects to it, so the
  announcement made from inside \<open>gtk_paned_set_position\<close> runs those connections.
\<close>

fun run_notify_position :: "gtk_state \<Rightarrow> wid \<Rightarrow> handler list \<Rightarrow> gtk_state" where
  "run_notify_position s p [] = s"
| "run_notify_position s p (Handler obj sig cb data # hs) =
     (if obj = p \<and> sig = ''notify::position'' \<and> cb = CB_notify_position
      then (case data of
              Some (Blist gtkblist) \<Rightarrow> run_notify_position (notify_position_cb s p gtkblist) p hs
            | _ \<Rightarrow> run_notify_position s p hs)
      else run_notify_position s p hs)"

definition g_object_notify_position :: "gtk_state \<Rightarrow> wid \<Rightarrow> gtk_state" where
  "g_object_notify_position s p = run_notify_position s p (handlers s)"

text \<open>
  \<open>gtk_paned_set_position\<close>: a position that is not negative becomes the size of the
  first pane and the position counts as set; a negative one leaves the size as it is and
  makes the position unset. Either way the change is announced.
\<close>

definition gtk_paned_set_position :: "gtk_state \<Rightarrow> wid \<Rightarrow> gint \<Rightarrow> gtk_state" where
  "gtk_paned_set_position s p v =
     g_object_notify_position
       (if 0 \<le> sint v
        then s\<lparr>position := (position s)(p := v), position_set := (position_set s)(p := True)\<rparr>
        else s\<lparr>position_set := (position_set s)(p := False)\<rparr>) p"

definition notify_max_position_cb :: "gtk_state \<Rightarrow> wid \<Rightarrow> PidginBuddyList \<Rightarrow> gtk_state" where
  "notify_max_position_cb s gobject gtkblist =
     (let size0 = (if GTK_IS_VPANED s gobject
                   then purple_prefs_get_int s PREF_HEIGHT
                   else purple_prefs_get_int s PREF_WIDTH);
          size = (if gtk_paned_get_child1 s gobject \<noteq> Some (bl_notebook gtkblist)
                  then g_object_get_max_position s gobject - size0
                  else size0);
          s1 = gtk_paned_set_position s gobject size;
          s2 = g_object_disconnect s1 gobject CB_notify_max_position (Some (Blist gtkblist));
          s3 = g_object_connect s2 gobject ''notify::position'' CB_notify_position
                 (Some (Blist gtkblist))
      in s3)"

text \<open>
  An emission of a signal by the toolkit: the connections of the instance for that
  signal run in the order they were made, each only if still connected when its turn
  comes. \<open>focus_in_event_cb\<close> hands a synthetic focus event to the conversation window,
  whose handlers belong to the host; it changes nothing of this state.
\<close>

fun run_handlers :: "gtk_state \<Rightarrow> wid \<Rightarrow> string \<Rightarrow> handler list \<Rightarrow> gtk_state" where
  "run_handlers s obj sig [] = s"
| "run_handlers s obj sig (Handler obj' sig' cb data # hs) =
     (if obj' = obj \<and> sig' = sig \<and> Handler obj' sig' cb data \<in> set (handlers s)
      then (case (cb, data) of
              (CB_notify_position, Some (Blist gtkblist)) \<Rightarrow>
                 run_handlers (notify_position_cb s obj gtkblist) obj sig hs
            | (CB_notify_max_position, Some (Blist gtkblist)) \<Rightarrow>
                 run_handlers (notify_max_position_cb s obj gtkblist) obj sig hs
            | _ \<Rightarrow> run_handlers s obj sig hs)
      else run_handlers s obj sig hs)"

definition g_signal_emit :: "gtk_state \<Rightarrow> wid \<Rightarrow> string \<Rightarrow> gtk_state" where
  "g_signal_emit s obj sig = run_handlers s obj sig (handlers s)"

subsection \<open>The plugin's helpers\<close>

text \<open>
  Modelled from the spec: \<open>pwm_store\<close>, \<open>pwm_fetch\<close>, \<open>pwm_clear\<close> and
  \<open>pwm_blist_get_convs\<close> are declared in window\_merge.h, which is not among the
  sources. The spec describes the saved-state slots as data associated with a given
  buddy-list window, attached via generic key-value tagging on toolkit widgets;
  merge.c itself attaches the conversation window to the notebook of the Buddy List under
  the key \<open>pwm_convs\<close> and ends the association by stealing that key, so the slots are
  tags of the same object and \<open>pwm_blist_get_convs\<close> reads that key.
\<close>

definition pwm_store ::
  "gtk_state \<Rightarrow> PidginBuddyList \<Rightarrow> string \<Rightarrow> gpointer option \<Rightarrow> gtk_state" where
  "pwm_store s gtkblist key v = g_object_set_data s (bl_notebook gtkblist) (''pwm_'' @ key) v"

definition pwm_fetch :: "gtk_state \<Rightarrow> PidginBuddyList \<Rightarrow> string \<Rightarrow> gpointer option" where
  "pwm_fetch s gtkblist key = g_object_get_data s (bl_notebook gtkblist) (''pwm_'' @ key)"

definition pwm_clear :: "gtk_state \<Rightarrow> PidginBuddyList \<Rightarrow> string \<Rightarrow> gtk_state" where
  "pwm_clear s gtkblist key = g_object_steal_data s (bl_notebook gtkblist) (''pwm_'' @ key)"

definition pwm_blist_get_convs :: "gtk_state \<Rightarrow> PidginBuddyList \<Rightarrow> gpointer option" where
  "pwm_blist_get_convs s gtkblist = g_object_get_data s (bl_notebook gtkblist) ''pwm_convs''"

text \<open>The casts of a fetched \<open>gpointer\<close>. Each slot only ever holds what merge.c stored
  in it; a pointer of another kind reads as NULL.\<close>

definition widget_of :: "gpointer option \<Rightarrow> wid option" where
  "widget_of p = (case p of Some (Widget w) \<Rightarrow> Some w | _ \<Rightarrow> None)"

definition glist_of :: "gpointer option \<Rightarrow> wid list" where
  "glist_of p = (case p of Some (GList xs) \<Rightarrow> xs | _ \<Rightarrow> [])"

definition string_of :: "gpointer option \<Rightarrow> string option" where
  "string_of p = (case p of Some (Str t) \<Rightarrow> Some t | _ \<Rightarrow> None)"

definition glist :: "wid list \<Rightarrow> gpointer option" where
  "glist xs = (if xs = [] then None else Some (GList xs))"

text \<open>Following a \<open>PidginWindow *\<close>: NULL and dangling pointers have no structure.\<close>

definition conv_window_of :: "gtk_state \<Rightarrow> gpointer option \<Rightarrow> (cwid \<times> PidginWindow) option" where
  "conv_window_of s p =
     (case p of
        Some (ConvWin c) \<Rightarrow> (case windows s c of None \<Rightarrow> None | Some cw \<Rightarrow> Some (c, cw))
      | _ \<Rightarrow> None)"

definition g_strdup :: "string option \<Rightarrow> string option" where
  "g_strdup t = t"

definition child_index :: "gtk_state \<Rightarrow> wid \<Rightarrow> wid \<Rightarrow> nat" where
  "child_index s par w =
     (if GTK_IS_PANED s par then (if paned_child1 s par = Some w then 0 else 1)
      else length (takeWhile (\<lambda>x. x \<noteq> w) (children s par)))"

definition insert_child :: "gtk_state \<Rightarrow> wid \<Rightarrow> nat \<Rightarrow> wid \<Rightarrow> gtk_state" where
  "insert_child s par i w =
     (if parent s w \<noteq> None then s
      else if GTK_IS_PANED s par then
        (if i = 0 \<and> paned_child1 s par = None
         then s\<lparr>parent := (parent s)(w := Some par),
                paned_child1 := (paned_child1 s)(par := Some w)\<rparr>
         else if i \<noteq> 0 \<and> paned_child2 s par = None
         then s\<lparr>parent := (parent s)(w := Some par),
                paned_child2 := (paned_child2 s)(par := Some w)\<rparr>
         else s)
      else s\<lparr>parent := (parent s)(w := Some par),
             children := (children s)
                (par := take i (children s par) @ [w] @ drop i (children s par))\<rparr>)"

text \<open>
  Modelled from the spec: \<open>pwm_widget_replace(original, replacement, storage)\<close> is
  defined in window\_merge.c, which is not among the sources. The spec speaks of
  reparenting widgets and of a placeholder widget and an original paned container kept
  to reverse the merge; merge.c calls it to put \<open>replacement\<close> at the spot of
  \<open>original\<close>, which is moved into \<open>storage\<close> or, with no storage, destroyed.
  Without an original, a replacement or a parent of the original nothing happens.
\<close>

definition pwm_widget_replace ::
  "gtk_state \<Rightarrow> wid option \<Rightarrow> wid option \<Rightarrow> wid option \<Rightarrow> gtk_state" where
  "pwm_widget_replace s original replacement storage =
     (case original of
        None \<Rightarrow> s
      | Some orig \<Rightarrow>
     (case replacement of
        None \<Rightarrow> s
      | Some repl \<Rightarrow>
     (case gtk_widget_get_parent s orig of
        None \<Rightarrow> s
      | Some par \<Rightarrow>
          (let s1 = (case gtk_widget_get_parent s repl of
                       None \<Rightarrow> s
                     | Some rp \<Rightarrow> gtk_container_remove s rp repl);
               i = child_index s1 par orig;
               s2 = (case storage of
                       None \<Rightarrow> gtk_widget_destroy s1 orig
                     | Some st \<Rightarrow> gtk_widget_reparent s1 orig (Some st))
           in insert_child s2 par i repl))))"

definition pwm_init_dummy_conversation :: "gtk_state \<Rightarrow> PidginBuddyList \<Rightarrow> gtk_state" where
  "pwm_init_dummy_conversation s gtkblist =
     s\<lparr>dummy_conversation := (dummy_conversation s)(bl_notebook gtkblist := DummyHidden)\<rparr>"

definition pwm_show_dummy_conversation :: "gtk_state \<Rightarrow> PidginBuddyList \<Rightarrow> gtk_state" where
  "pwm_show_dummy_conversation s gtkblist =
     (if dummy_conversation s (bl_notebook gtkblist) = NoDummy then s
      else s\<lparr>dummy_conversation := (dummy_conversation s)(bl_notebook gtkblist := DummyShown)\<rparr>)"

definition pwm_free_dummy_conversation :: "gtk_state \<Rightarrow> PidginBuddyList \<Rightarrow> gtk_state" where
  "pwm_free_dummy_conversation s gtkblist =
     s\<lparr>dummy_conversation := (dummy_conversation s)(bl_notebook gtkblist := NoDummy)\<rparr>"

subsection \<open>The host's conversation windows\<close>

text \<open>
  \<open>pidgin_conv_window_new\<close> belongs to the host. The new window has a box holding
  its menu bar and its notebook, and one shown menu item per entry of
  \<open>conv_menu_layout\<close>, with a submenu where the entry is \<open>True\<close>. All submenus
  carry the one accelerator group of the window, named by the window's address.
\<close>

fun new_menu_items :: "gtk_state \<Rightarrow> wid \<Rightarrow> nat \<Rightarrow> bool list \<Rightarrow> gtk_state" where
  "new_menu_items s menubar accel [] = s"
| "new_menu_items s menubar accel (has_submenu # rest) =
     (let (item, s1) = g_object_new s GtkMenuItem;
          s2 = gtk_widget_show (gtk_container_add s1 menubar item) item;
          s3 = (if has_submenu
                then (let (m, t) = g_object_new s2 GtkMenu
                      in t\<lparr>submenu := (submenu t)(item := Some m),
                           menu_accel_group := (menu_accel_group t)(m := Some accel)\<rparr>)
                else s2)
      in new_menu_items s3 menubar accel rest)"

definition pidgin_conv_window_new :: "gtk_state \<Rightarrow> cwid \<times> gtk_state" where
  "pidgin_conv_window_new s =
     (let (win, s1) = g_object_new s GtkWindow;
          (box, s2) = g_object_new s1 GtkBox;
          (menubar, s3) = g_object_new s2 GtkMenuBar;
          (nb, s4) = g_object_new s3 GtkNotebook;
          s5 = gtk_container_add s4 win box;
          s6 = gtk_container_add s5 box menubar;
          s7 = gtk_container_add s6 box nb;
          s8 = new_menu_items s7 menubar win (conv_menu_layout s7);
          s9 = gtk_window_add_accel_group s8 win (Some win);
          c = next_win s9
      in (c, s9\<lparr>next_win := Suc c,
                windows := (windows s9)
                  (c := Some \<lparr>cw_window = Some win, cw_notebook = nb, cw_menubar = menubar\<rparr>)\<rparr>))"

definition pidgin_conv_window_show :: "gtk_state \<Rightarrow> cwid \<Rightarrow> gtk_state" where
  "pidgin_conv_window_show s c =
     (case windows s c of
        None \<Rightarrow> s
      | Some cw \<Rightarrow> (case cw_window cw of None \<Rightarrow> s | Some w \<Rightarrow> gtk_widget_show s w))"

subsection \<open>merge.c: layout, merge, split, menu visibility\<close>

text \<open>\<open>*side\<close>: the first character of a C string, the terminating NUL when it is
  empty.\<close>

definition first_char :: "string \<Rightarrow> char" where
  "first_char cs = (case cs of [] \<Rightarrow> CHR 0x00 | c # _ \<Rightarrow> c)"

text \<open>
  \<open>pwm_create_paned_layout\<close>, block by block as the comments of merge.c divide it.
  First the paned: created vertical or horizontal, shown, stored in the slot
  \<open>paned\<close>, and connected to \<open>notify_max_position_cb\<close>.
\<close>

definition layout_new_paned ::
  "gtk_state \<Rightarrow> PidginBuddyList \<Rightarrow> string option \<Rightarrow> wid \<times> gtk_state" where
  "layout_new_paned s gtkblist side =
     (let (paned, s1) =
             (if side \<noteq> None \<and> (first_char (the side) = CHR ''t'' \<or> first_char (the side) = CHR ''b'')
              then gtk_vpaned_new s
              else gtk_hpaned_new s);
          s2 = gtk_widget_show s1 paned;
          s3 = pwm_store s2 gtkblist ''paned'' (Some (Widget paned));
          s4 = g_object_connect s3 paned ''notify::max-position'' CB_notify_max_position
                 (Some (Blist gtkblist))
      in (paned, s4))"

text \<open>The branch \<open>old_paned == NULL\<close>: the Buddy List is pristine.\<close>

definition layout_pristine ::
  "gtk_state \<Rightarrow> PidginBuddyList \<Rightarrow> PidginWindow \<Rightarrow> wid \<Rightarrow> string option \<Rightarrow> gtk_state" where
  "layout_pristine s gtkblist gtkconvwin paned side =
     (let (placeholder, s1) = gtk_label_new s;
          s3 = (if side \<noteq> None \<and> (first_char (the side) = CHR ''t''
                                 \<or> first_char (the side) = CHR ''l'')
                then (let s2 = pwm_widget_replace s1 (Some (cw_notebook gtkconvwin))
                                 (Some placeholder) (Some paned)
                      in pwm_widget_replace s2 (Some (bl_notebook gtkblist))
                           (Some paned) (Some paned))
                else (let s2 = pwm_widget_replace s1 (Some (bl_notebook gtkblist))
                                 (Some paned) (Some paned)
                      in pwm_widget_replace s2 (Some (cw_notebook gtkconvwin))
                           (Some placeholder) (Some paned)))
      in pwm_store s3 gtkblist ''placeholder'' (Some (Widget placeholder)))"

text \<open>The other branch: existing panes are being replaced.\<close>

definition layout_replace ::
  "gtk_state \<Rightarrow> PidginBuddyList \<Rightarrow> PidginWindow \<Rightarrow> wid \<Rightarrow> gpointer option \<Rightarrow> string option
     \<Rightarrow> gtk_state" where
  "layout_replace s gtkblist gtkconvwin paned old_paned side =
     (let s2 = (if side \<noteq> None \<and> (first_char (the side) = CHR ''t''
                                 \<or> first_char (the side) = CHR ''l'')
                then (let s1 = gtk_widget_reparent s (cw_notebook gtkconvwin) (Some paned)
                      in gtk_widget_reparent s1 (bl_notebook gtkblist) (Some paned))
                else (let s1 = gtk_widget_reparent s (bl_notebook gtkblist) (Some paned)
                      in gtk_widget_reparent s1 (cw_notebook gtkconvwin) (Some paned)))
      in pwm_widget_replace s2 (widget_of old_paned) (Some paned) None)"

text \<open>Last, conversations resize with the window and the Buddy List keeps its size.\<close>

definition layout_set_resize ::
  "gtk_state \<Rightarrow> PidginBuddyList \<Rightarrow> PidginWindow \<Rightarrow> wid \<Rightarrow> gtk_state" where
  "layout_set_resize s gtkblist gtkconvwin paned =
     (let s1 = gtk_container_child_set_property_resize s paned (cw_notebook gtkconvwin) True
      in gtk_container_child_set_property_resize s1 paned (bl_notebook gtkblist) False)"

definition pwm_create_paned_layout ::
  "gtk_state \<Rightarrow> PidginBuddyList \<Rightarrow> string option \<Rightarrow> gtk_state option" where
  "pwm_create_paned_layout s gtkblist side =
     (let gtkconvwin = pwm_blist_get_convs s gtkblist;
          old_paned = pwm_fetch s gtkblist ''paned'';
          (paned, s1) = layout_new_paned s gtkblist side
      in case conv_window_of s1 gtkconvwin of
           None \<Rightarrow> None
         | Some (c, cw) \<Rightarrow>
             (let s2 = (if old_paned = None
                        then layout_pristine s1 gtkblist cw paned side
                        else layout_replace s1 gtkblist cw paned old_paned side)
              in Some (layout_set_resize s2 gtkblist cw paned)))"

fun show_items :: "gtk_state \<Rightarrow> wid list \<Rightarrow> gtk_state" where
  "show_items s [] = s"
| "show_items s (item # rest) = show_items (gtk_widget_show s item) rest"

fun hide_items :: "gtk_state \<Rightarrow> wid list \<Rightarrow> gtk_state" where
  "hide_items s [] = s"
| "hide_items s (item # rest) = hide_items (gtk_widget_hide s item) rest"

definition pwm_set_conv_menus_visible :: "gtk_state \<Rightarrow> PidginBuddyList \<Rightarrow> bool \<Rightarrow> gtk_state" where
  "pwm_set_conv_menus_visible s gtkblist vis =
     (let items = glist_of (pwm_fetch s gtkblist ''conv_menus'')
      in if vis then show_items s items else hide_items s items)"

text \<open>The loop of \<open>pwm_merge_conversation\<close> over the conversation menu items.\<close>

fun migrate_menu_items ::
  "gtk_state \<Rightarrow> PidginBuddyList \<Rightarrow> wid option \<Rightarrow> wid list \<Rightarrow> gtk_state" where
  "migrate_menu_items s gtkblist blist_menu [] = s"
| "migrate_menu_items s gtkblist blist_menu (item # rest) =
     (let s1 = gtk_widget_reparent s item blist_menu;
          s2 = (if GTK_IS_MENU_ITEM s1 item then
                  (case gtk_menu_item_get_submenu s1 item of
                     None \<Rightarrow> s1
                   | Some sub \<Rightarrow>
                       if GTK_IS_MENU s1 sub
                       then gtk_window_add_accel_group s1 (bl_window gtkblist)
                              (gtk_menu_get_accel_group s1 sub)
                       else s1)
                else s1)
      in migrate_menu_items s2 gtkblist blist_menu rest)"

text \<open>
  \<open>pwm_merge_conversation\<close>, with its two long blocks named after their comments in
  merge.c: the migration of the conversation menu items into the Buddy List bar, and
  everything after it (the dummy conversation, the focus connection, the window pointer
  of the conversation window structure, the skipped key bindings).
\<close>

definition merge_migrate_menus ::
  "gtk_state \<Rightarrow> PidginBuddyList \<Rightarrow> PidginWindow \<Rightarrow> wid option \<Rightarrow> gtk_state" where
  "merge_migrate_menus s gtkblist gtkconvwin blist_menu =
     (let items = gtk_container_get_children s (cw_menubar gtkconvwin);
          s1 = gtk_widget_reparent s (bl_menutray gtkblist) (Some (cw_menubar gtkconvwin));
          s2 = migrate_menu_items s1 gtkblist blist_menu items;
          s3 = gtk_widget_reparent s2 (bl_menutray gtkblist) blist_menu
      in pwm_store s3 gtkblist ''conv_menus'' (glist items))"

definition merge_finish ::
  "gtk_state \<Rightarrow> PidginBuddyList \<Rightarrow> cwid \<Rightarrow> PidginWindow \<Rightarrow> gtk_state" where
  "merge_finish s gtkblist c gtkconvwin =
     (let s1 = pwm_init_dummy_conversation s gtkblist;
          s2 = pwm_show_dummy_conversation s1 gtkblist;
          s3 = pwm_set_conv_menus_visible s2 gtkblist False;
          s4 = g_object_connect s3 (bl_window gtkblist) ''focus-in-event''
                 CB_focus_in_event (map_option Widget (cw_window gtkconvwin));
          s5 = pwm_store s4 gtkblist ''conv_window'' (map_option Widget (cw_window gtkconvwin));
          s6 = s5\<lparr>windows := (windows s5)
                     (c := Some (gtkconvwin\<lparr>cw_window := Some (bl_window gtkblist)\<rparr>))\<rparr>;
          s7 = gtk_binding_entry_skip s6 GDK_Up GDK_CONTROL_MASK;
          s8 = gtk_binding_entry_skip s7 GDK_Down GDK_CONTROL_MASK;
          s9 = gtk_binding_entry_skip s8 GDK_Page_Up GDK_CONTROL_MASK;
          s10 = gtk_binding_entry_skip s9 GDK_Page_Down GDK_CONTROL_MASK;
          s11 = gtk_binding_entry_skip s10 GDK_KP_Page_Up GDK_CONTROL_MASK
      in gtk_binding_entry_skip s11 GDK_KP_Page_Down GDK_CONTROL_MASK)"

definition pwm_merge_conversation :: "gtk_state \<Rightarrow> PidginBuddyList \<Rightarrow> gtk_state option" where
  "pwm_merge_conversation s gtkblist =
     (if pwm_blist_get_convs s gtkblist \<noteq> None then Some s
      else
        (let blist_menu = gtk_widget_get_parent s (bl_menutray gtkblist);
             (gtkconvwin, s1) = pidgin_conv_window_new s;
             s2 = g_object_set_data s1 (bl_notebook gtkblist) ''pwm_convs''
                    (Some (ConvWin gtkconvwin))
         in case windows s2 gtkconvwin of
              None \<Rightarrow> None
            | Some cw \<Rightarrow>
         (let s3 = g_object_set_data s2 (cw_notebook cw) ''pwm_blist'' (Some (Blist gtkblist));
              s4 = pwm_store s3 gtkblist ''title''
                     (map_option Str (g_strdup (gtk_window_get_title s3 (bl_window gtkblist))))
          in case pwm_create_paned_layout s4 gtkblist (purple_prefs_get_string s4 PREF_SIDE) of
               None \<Rightarrow> None
             | Some s5 \<Rightarrow>
                 Some (merge_finish (merge_migrate_menus s5 gtkblist cw blist_menu)
                         gtkblist gtkconvwin cw))))"

text \<open>The loop of \<open>pwm_split_conversation\<close> over the stored menu items.\<close>

fun return_menu_items ::
  "gtk_state \<Rightarrow> PidginBuddyList \<Rightarrow> wid \<Rightarrow> wid list \<Rightarrow> gtk_state" where
  "return_menu_items s gtkblist menubar [] = s"
| "return_menu_items s gtkblist menubar (item # rest) =
     (let s1 = (if GTK_IS_MENU_ITEM s item then
                  (case gtk_menu_item_get_submenu s item of
                     None \<Rightarrow> s
                   | Some sub \<Rightarrow>
                       if GTK_IS_MENU s sub
                       then gtk_window_remove_accel_group s (bl_window gtkblist)
                              (gtk_menu_get_accel_group s sub)
                       else s)
                else s);
          s2 = gtk_widget_reparent s1 item (Some menubar)
      in return_menu_items s2 gtkblist menubar rest)"

definition pwm_split_conversation :: "gtk_state \<Rightarrow> PidginBuddyList \<Rightarrow> gtk_state option" where
  "pwm_split_conversation s gtkblist =
     (let gtkconvwin = pwm_blist_get_convs s gtkblist;
          items = glist_of (pwm_fetch s gtkblist ''conv_menus'');
          paned = widget_of (pwm_fetch s gtkblist ''paned'');
          old_title = string_of (pwm_fetch s gtkblist ''title'');
          s1 = g_object_steal_data s (bl_notebook gtkblist) ''pwm_convs''
      in case conv_window_of s1 gtkconvwin of
           None \<Rightarrow> None
         | Some (c, cw) \<Rightarrow>
         (let s2 = g_object_steal_data s1 (cw_notebook cw) ''pwm_blist'';
              conv_window = widget_of (pwm_fetch s2 gtkblist ''conv_window'');
              s3 = s2\<lparr>windows := (windows s2)(c := Some (cw\<lparr>cw_window := conv_window\<rparr>))\<rparr>;
              s4 = pwm_clear s3 gtkblist ''conv_window'';
              s5 = g_object_disconnect s4 (bl_window gtkblist) CB_focus_in_event
                     (map_option Widget conv_window);
              s6 = return_menu_items s5 gtkblist (cw_menubar cw) items;
              s7 = pwm_clear s6 gtkblist ''conv_menus'';
              s8 = pwm_widget_replace s7 (widget_of (pwm_fetch s7 gtkblist ''placeholder''))
                     (Some (cw_notebook cw)) None;
              s9 = pwm_clear s8 gtkblist ''placeholder'';
              s10 = pidgin_conv_window_show s9 c;
              s11 = pwm_free_dummy_conversation s10 gtkblist;
              s12 = pwm_widget_replace s11 paned (Some (bl_notebook gtkblist)) None;
              s13 = pwm_clear s12 gtkblist ''paned'';
              s14 = gtk_window_set_icon_list s13 (bl_window gtkblist) [];
              s15 = gtk_window_set_title s14 (bl_window gtkblist) old_title;
              s16 = pwm_clear s15 gtkblist ''title''
          in Some s16))"

text \<open>
  The life of a merge: the states reached from a state by the operations of merge.c
  other than \<open>pwm_split_conversation\<close>, in any number and order: a new layout when the
  side preference changes, a change of the menu visibility, an emission of a signal
  (which runs the callbacks connected by merge.c), and a further call of
  \<open>pwm_merge_conversation\<close>.
\<close>

inductive merged_run :: "PidginBuddyList \<Rightarrow> gtk_state \<Rightarrow> gtk_state \<Rightarrow> bool"
  for gtkblist :: PidginBuddyList where
  start: "merged_run gtkblist s s"
| layout: "merged_run gtkblist s t \<Longrightarrow> pwm_create_paned_layout t gtkblist side = Some u
             \<Longrightarrow> merged_run gtkblist s u"
| menus: "merged_run gtkblist s t
            \<Longrightarrow> merged_run gtkblist s (pwm_set_conv_menus_visible t gtkblist vis)"
| signal: "merged_run gtkblist s t \<Longrightarrow> merged_run gtkblist s (g_signal_emit t obj sig)"
| merge_again: "merged_run gtkblist s t \<Longrightarrow> pwm_merge_conversation t gtkblist = Some u
                  \<Longrightarrow> merged_run gtkblist s u"

subsection \<open>Two concrete states\<close>

text \<open>
  A Buddy List before any merge: its window 0 holds a box 1 with the menu bar 2 and the
  notebook 3; the menu bar holds one menu item 5 and the menu tray 4.
\<close>

definition blist0 :: PidginBuddyList where
  "blist0 = \<lparr>bl_window = 0, bl_notebook = 3, bl_menutray = 4\<rparr>"

definition pristine :: gtk_state where
  "pristine =
     \<lparr>next_obj = 6,
      kind = (\<lambda>_. GtkLabel)(0 := GtkWindow, 1 := GtkBox, 2 := GtkMenuBar, 3 := GtkNotebook,
                             4 := GtkMenuItem, 5 := GtkMenuItem),
      parent = (\<lambda>_. None)(1 := Some 0, 2 := Some 1, 3 := Some 1, 4 := Some 2, 5 := Some 2),
      children = (\<lambda>_. [])(0 := [1], 1 := [2, 3], 2 := [5, 4]),
      paned_child1 = (\<lambda>_. None),
      paned_child2 = (\<lambda>_. None),
      visible = (\<lambda>w. w < 6),
      destroyed = (\<lambda>_. False),
      object_data = (\<lambda>_ _. None),
      title = (\<lambda>_. None)(0 := Some ''Buddy List''),
      icon_list = (\<lambda>_. []),
      accel_groups = (\<lambda>_. {}),
      submenu = (\<lambda>_. None),
      menu_accel_group = (\<lambda>_. None),
      position = (\<lambda>_. 0),
      position_set = (\<lambda>_. False),
      max_position = (\<lambda>_. 0),
      child_resize = (\<lambda>_. True),
      handlers = [],
      next_win = 0,
      windows = (\<lambda>_. None),
      conv_menu_layout = [True, False],
      imhtml_skipped = {},
      prefs_int = (\<lambda>_. 0)(PREF_WIDTH := 300, PREF_HEIGHT := 200),
      prefs_string = (\<lambda>_. Some ''right''),
      dummy_conversation = (\<lambda>_. NoDummy)\<rparr>"

text \<open>
  The same Buddy List merged with the conversation window 6 (box 7, menu bar 8, notebook
  9, menu items 10 and 12, submenu 11): the horizontal paned 13 stands where the
  notebook 3 stood and holds the notebooks 3 and 9, the label 14 marks the place of
  notebook 9, the slider is at 300 of 1000.
\<close>

definition merged0 :: gtk_state where
  "merged0 =
     \<lparr>next_obj = 15,
      kind = (\<lambda>_. GtkLabel)(0 := GtkWindow, 1 := GtkBox, 2 := GtkMenuBar, 3 := GtkNotebook,
                             4 := GtkMenuItem, 5 := GtkMenuItem, 6 := GtkWindow, 7 := GtkBox,
                             8 := GtkMenuBar, 9 := GtkNotebook, 10 := GtkMenuItem, 11 := GtkMenu,
                             12 := GtkMenuItem, 13 := GtkHPaned, 14 := GtkLabel),
      parent = (\<lambda>_. None)(1 := Some 0, 2 := Some 1, 3 := Some 13, 4 := Some 2, 5 := Some 2,
                             7 := Some 6, 8 := Some 7, 9 := Some 13, 10 := Some 2, 12 := Some 2,
                             13 := Some 1, 14 := Some 7),
      children = (\<lambda>_. [])(0 := [1], 1 := [2, 13], 2 := [5, 10, 12, 4], 6 := [7], 7 := [8, 14]),
      paned_child1 = (\<lambda>_. None)(13 := Some 3),
      paned_child2 = (\<lambda>_. None)(13 := Some 9),
      visible = (\<lambda>w. w < 6 \<or> w = 13),
      destroyed = (\<lambda>_. False),
      object_data = (\<lambda>_ _. None)
        (3 := (\<lambda>_. None)(''pwm_convs'' := Some (ConvWin 0),
                            ''pwm_title'' := Some (Str ''Buddy List''),
                            ''pwm_paned'' := Some (Widget 13),
                            ''pwm_placeholder'' := Some (Widget 14),
                            ''pwm_conv_menus'' := Some (GList [10, 12]),
                            ''pwm_conv_window'' := Some (Widget 6)),
         9 := (\<lambda>_. None)(''pwm_blist'' := Some (Blist blist0))),
      title = (\<lambda>_. None)(0 := Some ''Buddy List''),
      icon_list = (\<lambda>_. []),
      accel_groups = (\<lambda>_. {})(0 := {6}, 6 := {6}),
      submenu = (\<lambda>_. None)(10 := Some 11),
      menu_accel_group = (\<lambda>_. None)(11 := Some 6),
      position = (\<lambda>_. 0)(13 := 300),
      position_set = (\<lambda>_. False)(13 := True),
      max_position = (\<lambda>_. 0)(13 := 1000),
      child_resize = (\<lambda>_. True)(3 := False),
      handlers = [Handler 13 ''notify::max-position'' CB_notify_max_position
                    (Some (Blist blist0)),
                  Handler 0 ''focus-in-event'' CB_focus_in_event (Some (Widget 6))],
      next_win = 1,
      windows = (\<lambda>_. None)
        (0 := Some \<lparr>cw_window = Some 0, cw_notebook = 9, cw_menubar = 8\<rparr>),
      conv_menu_layout = [True, False],
      imhtml_skipped = {(GDK_KP_Page_Down, GDK_CONTROL_MASK), (GDK_KP_Page_Up, GDK_CONTROL_MASK),
                        (GDK_Page_Down, GDK_CONTROL_MASK), (GDK_Page_Up, GDK_CONTROL_MASK),
                        (GDK_Down, GDK_CONTROL_MASK), (GDK_Up, GDK_CONTROL_MASK)},
      prefs_int = (\<lambda>_. 0)(PREF_WIDTH := 300, PREF_HEIGHT := 200),
      prefs_string = (\<lambda>_. Some ''right''),
      dummy_conversation = (\<lambda>_. NoDummy)(3 := DummyShown)\<rparr>"

text \<open>
  Between the two: the conversation window has been created and tied to the Buddy List,
  and the title is saved, but no paned exists yet. This is the state in which
  \<open>pwm_merge_conversation\<close> calls \<open>pwm_create_paned_layout\<close>.
\<close>

definition tied0 :: gtk_state where
  "tied0 =
     \<lparr>next_obj = 13,
      kind = (\<lambda>_. GtkLabel)(0 := GtkWindow, 1 := GtkBox, 2 := GtkMenuBar, 3 := GtkNotebook,
                             4 := GtkMenuItem, 5 := GtkMenuItem, 6 := GtkWindow, 7 := GtkBox,
                             8 := GtkMenuBar, 9 := GtkNotebook, 10 := GtkMenuItem, 11 := GtkMenu,
                             12 := GtkMenuItem),
      parent = (\<lambda>_. None)(1 := Some 0, 2 := Some 1, 3 := Some 1, 4 := Some 2, 5 := Some 2,
                             7 := Some 6, 8 := Some 7, 9 := Some 7, 10 := Some 8, 12 := Some 8),
      children = (\<lambda>_. [])(0 := [1], 1 := [2, 3], 2 := [5, 4], 6 := [7], 7 := [8, 9],
                            8 := [10, 12]),
      paned_child1 = (\<lambda>_. None),
      paned_child2 = (\<lambda>_. None),
      visible = (\<lambda>w. w < 6 \<or> w = 10 \<or> w = 12),
      destroyed = (\<lambda>_. False),
      object_data = (\<lambda>_ _. None)
        (3 := (\<lambda>_. None)(''pwm_convs'' := Some (ConvWin 0),
                            ''pwm_title'' := Some (Str ''Buddy List'')),
         9 := (\<lambda>_. None)(''pwm_blist'' := Some (Blist blist0))),
      title = (\<lambda>_. None)(0 := Some ''Buddy List''),
      icon_list = (\<lambda>_. []),
      accel_groups = (\<lambda>_. {})(6 := {6}),
      submenu = (\<lambda>_. None)(10 := Some 11),
      menu_accel_group = (\<lambda>_. None)(11 := Some 6),
      position = (\<lambda>_. 0),
      position_set = (\<lambda>_. False),
      max_position = (\<lambda>_. 0),
      child_resize = (\<lambda>_. True),
      handlers = [],
      next_win = 1,
      windows = (\<lambda>_. None)
        (0 := Some \<lparr>cw_window = Some 6, cw_notebook = 9, cw_menubar = 8\<rparr>),
      conv_menu_layout = [True, False],
      imhtml_skipped = {},
      prefs_int = (\<lambda>_. 0)(PREF_WIDTH := 300, PREF_HEIGHT := 200),
      prefs_string = (\<lambda>_. Some ''right''),
      dummy_conversation = (\<lambda>_. NoDummy)\<rparr>"

text \<open>
  Four states around the slider of the paned 13 of \<open>merged0\<close>. In \<open>stored0\<close> the
  callback \<open>notify_position_cb\<close> has recorded the size and the slider has since been
  moved to 0. \<open>swapped0\<close> is \<open>merged0\<close> with the conversations in the first pane, and
  \<open>swapped_stored0\<close> is to it what \<open>stored0\<close> is to \<open>merged0\<close>. In \<open>allocated0\<close>
  the paned has its max-position but its slider has not been set yet.
\<close>

definition stored0 :: gtk_state where
  "stored0 = (notify_position_cb merged0 13 blist0)\<lparr>position := (position merged0)(13 := 0)\<rparr>"

definition swapped0 :: gtk_state where
  "swapped0 = merged0\<lparr>paned_child1 := (paned_child1 merged0)(13 := Some 9),
                       paned_child2 := (paned_child2 merged0)(13 := Some 3)\<rparr>"

definition swapped_stored0 :: gtk_state where
  "swapped_stored0 =
     (notify_position_cb swapped0 13 blist0)\<lparr>position := (position swapped0)(13 := 0)\<rparr>"

definition allocated0 :: gtk_state where
  "allocated0 = merged0\<lparr>position := (position merged0)(13 := 0),
                         position_set := (position_set merged0)(13 := False)\<rparr>"

text \<open>
  \<open>dragged0\<close>: after the first emission of \<open>notify::max-position\<close> in
  \<open>allocated0\<close> the slider of the paned 13 has been dragged to 400.
\<close>

definition dragged0 :: gtk_state where
  "dragged0 =
     (g_signal_emit allocated0 13 ''notify::max-position'')
       \<lparr>position := (position (g_signal_emit allocated0 13 ''notify::max-position''))(13 := 400)\<rparr>"

section \<open>Properties\<close>

subsection \<open>What each call leaves alone\<close>

lemma g_object_set_data_frame [simp]:
  "windows (g_object_set_data s obj key v) = windows s"
  "next_obj (g_object_set_data s obj key v) = next_obj s"
  "next_win (g_object_set_data s obj key v) = next_win s"
  "kind (g_object_set_data s obj key v) = kind s"
  "handlers (g_object_set_data s obj key v) = handlers s"
  "imhtml_skipped (g_object_set_data s obj key v) = imhtml_skipped s"
  "prefs_int (g_object_set_data s obj key v) = prefs_int s"
  "prefs_string (g_object_set_data s obj key v) = prefs_string s"
  "position (g_object_set_data s obj key v) = position s"
  "max_position (g_object_set_data s obj key v) = max_position s"
  "conv_menu_layout (g_object_set_data s obj key v) = conv_menu_layout s"
  "parent (g_object_set_data s obj key v) = parent s"
  "paned_child1 (g_object_set_data s obj key v) = paned_child1 s"
  "paned_child2 (g_object_set_data s obj key v) = paned_child2 s"
  "children (g_object_set_data s obj key v) = children s"
  by (simp_all add: g_object_set_data_def)

lemma g_object_steal_data_frame [simp]:
  "windows (g_object_steal_data s obj key) = windows s"
  "next_obj (g_object_steal_data s obj key) = next_obj s"
  "next_win (g_object_steal_data s obj key) = next_win s"
  "kind (g_object_steal_data s obj key) = kind s"
  "handlers (g_object_steal_data s obj key) = handlers s"
  "imhtml_skipped (g_object_steal_data s obj key) = imhtml_skipped s"
  "prefs_int (g_object_steal_data s obj key) = prefs_int s"
  "prefs_string (g_object_steal_data s obj key) = prefs_string s"
  "position (g_object_steal_data s obj key) = position s"
  "max_position (g_object_steal_data s obj key) = max_position s"
  "conv_menu_layout (g_object_steal_data s obj key) = conv_menu_layout s"
  "parent (g_object_steal_data s obj key) = parent s"
  "paned_child1 (g_object_steal_data s obj key) = paned_child1 s"
  "paned_child2 (g_object_steal_data s obj key) = paned_child2 s"
  "children (g_object_steal_data s obj key) = children s"
  by (simp_all add: g_object_steal_data_def)

lemma gtk_container_add_frame [simp]:
  "object_data (gtk_container_add s c w) = object_data s"
  "windows (gtk_container_add s c w) = windows s"
  "next_obj (gtk_container_add s c w) = next_obj s"
  "next_win (gtk_container_add s c w) = next_win s"
  "kind (gtk_container_add s c w) = kind s"
  "handlers (gtk_container_add s c w) = handlers s"
  "imhtml_skipped (gtk_container_add s c w) = imhtml_skipped s"
  "prefs_int (gtk_container_add s c w) = prefs_int s"
  "prefs_string (gtk_container_add s c w) = prefs_string s"
  "position (gtk_container_add s c w) = position s"
  "max_position (gtk_container_add s c w) = max_position s"
  "conv_menu_layout (gtk_container_add s c w) = conv_menu_layout s"
  "visible (gtk_container_add s c w) = visible s"
  by (simp_all add: gtk_container_add_def)

lemma gtk_container_remove_frame [simp]:
  "object_data (gtk_container_remove s c w) = object_data s"
  "windows (gtk_container_remove s c w) = windows s"
  "next_obj (gtk_container_remove s c w) = next_obj s"
  "next_win (gtk_container_remove s c w) = next_win s"
  "kind (gtk_container_remove s c w) = kind s"
  "handlers (gtk_container_remove s c w) = handlers s"
  "imhtml_skipped (gtk_container_remove s c w) = imhtml_skipped s"
  "prefs_int (gtk_container_remove s c w) = prefs_int s"
  "prefs_string (gtk_container_remove s c w) = prefs_string s"
  "position (gtk_container_remove s c w) = position s"
  "max_position (gtk_container_remove s c w) = max_position s"
  "conv_menu_layout (gtk_container_remove s c w) = conv_menu_layout s"
  "visible (gtk_container_remove s c w) = visible s"
  by (simp_all add: gtk_container_remove_def)

lemma insert_child_frame [simp]:
  "object_data (insert_child s c i w) = object_data s"
  "windows (insert_child s c i w) = windows s"
  "next_obj (insert_child s c i w) = next_obj s"
  "next_win (insert_child s c i w) = next_win s"
  "kind (insert_child s c i w) = kind s"
  "handlers (insert_child s c i w) = handlers s"
  "imhtml_skipped (insert_child s c i w) = imhtml_skipped s"
  "prefs_int (insert_child s c i w) = prefs_int s"
  "prefs_string (insert_child s c i w) = prefs_string s"
  "position (insert_child s c i w) = position s"
  "max_position (insert_child s c i w) = max_position s"
  "conv_menu_layout (insert_child s c i w) = conv_menu_layout s"
  by (simp_all add: insert_child_def)

lemma gtk_widget_reparent_frame [simp]:
  "object_data (gtk_widget_reparent s w np) = object_data s"
  "windows (gtk_widget_reparent s w np) = windows s"
  "next_obj (gtk_widget_reparent s w np) = next_obj s"
  "next_win (gtk_widget_reparent s w np) = next_win s"
  "kind (gtk_widget_reparent s w np) = kind s"
  "handlers (gtk_widget_reparent s w np) = handlers s"
  "imhtml_skipped (gtk_widget_reparent s w np) = imhtml_skipped s"
  "prefs_int (gtk_widget_reparent s w np) = prefs_int s"
  "prefs_string (gtk_widget_reparent s w np) = prefs_string s"
  "position (gtk_widget_reparent s w np) = position s"
  "max_position (gtk_widget_reparent s w np) = max_position s"
  "conv_menu_layout (gtk_widget_reparent s w np) = conv_menu_layout s"
  by (simp_all add: gtk_widget_reparent_def split: option.splits)

lemma gtk_widget_destroy_frame [simp]:
  "object_data (gtk_widget_destroy s w) = object_data s"
  "windows (gtk_widget_destroy s w) = windows s"
  "next_obj (gtk_widget_destroy s w) = next_obj s"
  "next_win (gtk_widget_destroy s w) = next_win s"
  "kind (gtk_widget_destroy s w) = kind s"
  "imhtml_skipped (gtk_widget_destroy s w) = imhtml_skipped s"
  "prefs_int (gtk_widget_destroy s w) = prefs_int s"
  "prefs_string (gtk_widget_destroy s w) = prefs_string s"
  "position (gtk_widget_destroy s w) = position s"
  "max_position (gtk_widget_destroy s w) = max_position s"
  "conv_menu_layout (gtk_widget_destroy s w) = conv_menu_layout s"
  by (simp_all add: gtk_widget_destroy_def Let_def split: option.splits)

lemma pwm_widget_replace_frame [simp]:
  "object_data (pwm_widget_replace s a b c) = object_data s"
  "windows (pwm_widget_replace s a b c) = windows s"
  "next_obj (pwm_widget_replace s a b c) = next_obj s"
  "next_win (pwm_widget_replace s a b c) = next_win s"
  "kind (pwm_widget_replace s a b c) = kind s"
  "imhtml_skipped (pwm_widget_replace s a b c) = imhtml_skipped s"
  "prefs_int (pwm_widget_replace s a b c) = prefs_int s"
  "prefs_string (pwm_widget_replace s a b c) = prefs_string s"
  "position (pwm_widget_replace s a b c) = position s"
  "max_position (pwm_widget_replace s a b c) = max_position s"
  "conv_menu_layout (pwm_widget_replace s a b c) = conv_menu_layout s"
  by (simp_all add: pwm_widget_replace_def Let_def gtk_widget_get_parent_def split: option.splits)

lemma child_set_property_resize_frame [simp]:
  "object_data (gtk_container_child_set_property_resize s c w v) = object_data s"
  "windows (gtk_container_child_set_property_resize s c w v) = windows s"
  "next_obj (gtk_container_child_set_property_resize s c w v) = next_obj s"
  "next_win (gtk_container_child_set_property_resize s c w v) = next_win s"
  "kind (gtk_container_child_set_property_resize s c w v) = kind s"
  "handlers (gtk_container_child_set_property_resize s c w v) = handlers s"
  "imhtml_skipped (gtk_container_child_set_property_resize s c w v) = imhtml_skipped s"
  "prefs_int (gtk_container_child_set_property_resize s c w v) = prefs_int s"
  "prefs_string (gtk_container_child_set_property_resize s c w v) = prefs_string s"
  "position (gtk_container_child_set_property_resize s c w v) = position s"
  "max_position (gtk_container_child_set_property_resize s c w v) = max_position s"
  "conv_menu_layout (gtk_container_child_set_property_resize s c w v) = conv_menu_layout s"
  "parent (gtk_container_child_set_property_resize s c w v) = parent s"
  "paned_child1 (gtk_container_child_set_property_resize s c w v) = paned_child1 s"
  "paned_child2 (gtk_container_child_set_property_resize s c w v) = paned_child2 s"
  "children (gtk_container_child_set_property_resize s c w v) = children s"
  by (simp_all add: gtk_container_child_set_property_resize_def)

lemma gtk_window_add_accel_group_frame [simp]:
  "object_data (gtk_window_add_accel_group s w g) = object_data s"
  "windows (gtk_window_add_accel_group s w g) = windows s"
  "next_obj (gtk_window_add_accel_group s w g) = next_obj s"
  "next_win (gtk_window_add_accel_group s w g) = next_win s"
  "kind (gtk_window_add_accel_group s w g) = kind s"
  "handlers (gtk_window_add_accel_group s w g) = handlers s"
  "imhtml_skipped (gtk_window_add_accel_group s w g) = imhtml_skipped s"
  "prefs_int (gtk_window_add_accel_group s w g) = prefs_int s"
  "prefs_string (gtk_window_add_accel_group s w g) = prefs_string s"
  "position (gtk_window_add_accel_group s w g) = position s"
  "max_position (gtk_window_add_accel_group s w g) = max_position s"
  "conv_menu_layout (gtk_window_add_accel_group s w g) = conv_menu_layout s"
  "parent (gtk_window_add_accel_group s w g) = parent s"
  "paned_child1 (gtk_window_add_accel_group s w g) = paned_child1 s"
  "paned_child2 (gtk_window_add_accel_group s w g) = paned_child2 s"
  "children (gtk_window_add_accel_group s w g) = children s"
  by (simp_all add: gtk_window_add_accel_group_def split: option.splits)

lemma gtk_window_remove_accel_group_frame [simp]:
  "object_data (gtk_window_remove_accel_group s w g) = object_data s"
  "windows (gtk_window_remove_accel_group s w g) = windows s"
  "next_obj (gtk_window_remove_accel_group s w g) = next_obj s"
  "next_win (gtk_window_remove_accel_group s w g) = next_win s"
  "kind (gtk_window_remove_accel_group s w g) = kind s"
  "handlers (gtk_window_remove_accel_group s w g) = handlers s"
  "imhtml_skipped (gtk_window_remove_accel_group s w g) = imhtml_skipped s"
  "prefs_int (gtk_window_remove_accel_group s w g) = prefs_int s"
  "prefs_string (gtk_window_remove_accel_group s w g) = prefs_string s"
  "position (gtk_window_remove_accel_group s w g) = position s"
  "max_position (gtk_window_remove_accel_group s w g) = max_position s"
  "conv_menu_layout (gtk_window_remove_accel_group s w g) = conv_menu_layout s"
  "parent (gtk_window_remove_accel_group s w g) = parent s"
  "paned_child1 (gtk_window_remove_accel_group s w g) = paned_child1 s"
  "paned_child2 (gtk_window_remove_accel_group s w g) = paned_child2 s"
  "children (gtk_window_remove_accel_group s w g) = children s"
  by (simp_all add: gtk_window_remove_accel_group_def split: option.splits)

lemma pidgin_conv_window_show_frame [simp]:
  "object_data (pidgin_conv_window_show s c) = object_data s"
  "windows (pidgin_conv_window_show s c) = windows s"
  "next_obj (pidgin_conv_window_show s c) = next_obj s"
  "next_win (pidgin_conv_window_show s c) = next_win s"
  "kind (pidgin_conv_window_show s c) = kind s"
  "handlers (pidgin_conv_window_show s c) = handlers s"
  "imhtml_skipped (pidgin_conv_window_show s c) = imhtml_skipped s"
  "prefs_int (pidgin_conv_window_show s c) = prefs_int s"
  "prefs_string (pidgin_conv_window_show s c) = prefs_string s"
  "position (pidgin_conv_window_show s c) = position s"
  "max_position (pidgin_conv_window_show s c) = max_position s"
  "conv_menu_layout (pidgin_conv_window_show s c) = conv_menu_layout s"
  "parent (pidgin_conv_window_show s c) = parent s"
  "paned_child1 (pidgin_conv_window_show s c) = paned_child1 s"
  "paned_child2 (pidgin_conv_window_show s c) = paned_child2 s"
  "children (pidgin_conv_window_show s c) = children s"
  by (simp_all add: pidgin_conv_window_show_def gtk_widget_show_def split: option.splits)

lemma g_object_steal_data_at [simp]:
  "object_data (g_object_steal_data s obj key) obj' key' =
     (if obj' = obj \<and> key' = key then None else object_data s obj' key')"
  by (simp add: g_object_steal_data_def)

lemma g_object_set_data_at [simp]:
  "object_data (g_object_set_data s obj key v) obj' key' =
     (if obj' = obj \<and> key' = key then v else object_data s obj' key')"
  by (simp add: g_object_set_data_def)

lemmas slot_defs = g_object_get_data_def pwm_store_def pwm_fetch_def pwm_clear_def
  pwm_blist_get_convs_def



lemmas update_defs = g_object_connect_def g_object_disconnect_def gtk_widget_show_def
  gtk_widget_hide_def gtk_window_set_title_def gtk_window_set_icon_list_def
  gtk_binding_entry_skip_def purple_prefs_set_int_def pwm_init_dummy_conversation_def
  pwm_show_dummy_conversation_def pwm_free_dummy_conversation_def

lemma return_menu_items_frame [simp]:
  "object_data (return_menu_items s gtkblist menubar items) = object_data s"
  "windows (return_menu_items s gtkblist menubar items) = windows s"
  "next_obj (return_menu_items s gtkblist menubar items) = next_obj s"
  "handlers (return_menu_items s gtkblist menubar items) = handlers s"
  "imhtml_skipped (return_menu_items s gtkblist menubar items) = imhtml_skipped s"
  by (induction items arbitrary: s; simp add: Let_def split: option.splits)+

lemma migrate_menu_items_frame [simp]:
  "object_data (migrate_menu_items s gtkblist blist_menu items) = object_data s"
  "windows (migrate_menu_items s gtkblist blist_menu items) = windows s"
  "next_obj (migrate_menu_items s gtkblist blist_menu items) = next_obj s"
  "handlers (migrate_menu_items s gtkblist blist_menu items) = handlers s"
  "imhtml_skipped (migrate_menu_items s gtkblist blist_menu items) = imhtml_skipped s"
  by (induction items arbitrary: s; simp add: Let_def split: option.splits)+

lemma visible_update_cong:
  "(\<And>w. f w = g w) \<Longrightarrow> s\<lparr>visible := f\<rparr> = s\<lparr>visible := g\<rparr>"
  by (simp add: fun_eq_iff)

lemma show_items_eq:
  "show_items s items = s\<lparr>visible := (\<lambda>w. if w \<in> set items then True else visible s w)\<rparr>"
proof (induction items arbitrary: s)
  case Nil
  show ?case by simp
next
  case (Cons item rest)
  show ?case
    unfolding show_items.simps Cons.IH gtk_widget_show_def
    by (simp, rule visible_update_cong, auto)
qed

lemma hide_items_eq:
  "hide_items s items = s\<lparr>visible := (\<lambda>w. if w \<in> set items then False else visible s w)\<rparr>"
proof (induction items arbitrary: s)
  case Nil
  show ?case by simp
next
  case (Cons item rest)
  show ?case
    unfolding hide_items.simps Cons.IH gtk_widget_hide_def
    by (simp, rule visible_update_cong, auto)
qed

lemma pwm_set_conv_menus_visible_eq:
  "pwm_set_conv_menus_visible s gtkblist vis =
     s\<lparr>visible := (\<lambda>w. if w \<in> set (glist_of (pwm_fetch s gtkblist ''conv_menus''))
                         then vis else visible s w)\<rparr>"
  by (simp add: pwm_set_conv_menus_visible_def Let_def show_items_eq hide_items_eq)


lemma split_succeeds:
  assumes "conv_window_of s (pwm_blist_get_convs s gtkblist) = Some (c, cw)"
  shows "pwm_split_conversation s gtkblist \<noteq> None"
proof -
  have w: "conv_window_of (g_object_steal_data s (bl_notebook gtkblist) ''pwm_convs'')
             (pwm_blist_get_convs s gtkblist) = Some (c, cw)"
    using assms
    by (auto simp: conv_window_of_def split: option.splits gpointer.splits)
  show ?thesis
    unfolding pwm_split_conversation_def Let_def w by simp
qed

lemma split_object_data:
  assumes "conv_window_of s (pwm_blist_get_convs s gtkblist) = Some (c, cw)"
  shows "object_data (the (pwm_split_conversation s gtkblist)) obj key =
           (if obj = bl_notebook gtkblist \<and> key = ''pwm_title'' then None
            else if obj = bl_notebook gtkblist \<and> key = ''pwm_paned'' then None
            else if obj = bl_notebook gtkblist \<and> key = ''pwm_placeholder'' then None
            else if obj = bl_notebook gtkblist \<and> key = ''pwm_conv_menus'' then None
            else if obj = bl_notebook gtkblist \<and> key = ''pwm_conv_window'' then None
            else if obj = cw_notebook cw \<and> key = ''pwm_blist'' then None
            else if obj = bl_notebook gtkblist \<and> key = ''pwm_convs'' then None
            else object_data s obj key)"
proof -
  have w: "conv_window_of (g_object_steal_data s (bl_notebook gtkblist) ''pwm_convs'')
             (pwm_blist_get_convs s gtkblist) = Some (c, cw)"
    using assms
    by (auto simp: conv_window_of_def split: option.splits gpointer.splits)
  show ?thesis
    unfolding pwm_split_conversation_def Let_def w
    by (simp add: slot_defs update_defs del: split_paired_All split_paired_Ex)
qed

subsection \<open>The slider callbacks\<close>

lemma notify_position_cb_eq:
  "notify_position_cb s gobject gtkblist =
     s\<lparr>prefs_int := (prefs_int s)
         ((if kind s gobject = GtkVPaned then PREF_HEIGHT else PREF_WIDTH) :=
            (if paned_child1 s gobject = Some (bl_notebook gtkblist)
             then position s gobject
             else max_position s gobject - position s gobject))\<rparr>"
  by (simp add: notify_position_cb_def Let_def GTK_IS_VPANED_def purple_prefs_set_int_def
      gtk_paned_get_position_def gtk_paned_get_child1_def g_object_get_max_position_def)

lemma run_notify_position_frame:
  "\<exists>f. run_notify_position s p hs = s\<lparr>prefs_int := f\<rparr>"
proof (induction hs arbitrary: s)
  case Nil
  have "s = s\<lparr>prefs_int := prefs_int s\<rparr>" by simp
  then show ?case by (metis run_notify_position.simps(1))
next
  case (Cons h hs)
  obtain obj sig cb data where h: "h = Handler obj sig cb data" by (cases h)
  show ?case
  proof (cases "obj = p \<and> sig = ''notify::position'' \<and> cb = CB_notify_position
                 \<and> (\<exists>bl. data = Some (Blist bl))")
    case False
    then have "run_notify_position s p (h # hs) = run_notify_position s p hs"
      unfolding h by (auto split: option.splits gpointer.splits)
    then show ?thesis using Cons.IH[of s] by simp
  next
    case True
    then obtain bl where bl: "data = Some (Blist bl)" by blast
    obtain f where f: "run_notify_position (notify_position_cb s p bl) p hs
                        = (notify_position_cb s p bl)\<lparr>prefs_int := f\<rparr>"
      using Cons.IH by blast
    have "run_notify_position s p (h # hs) = s\<lparr>prefs_int := f\<rparr>"
      unfolding h using True bl f by (simp add: notify_position_cb_eq)
    then show ?thesis by blast
  qed
qed

lemma gtk_paned_set_position_frame:
  "\<exists>f. gtk_paned_set_position s p v =
         s\<lparr>position := (if 0 \<le> sint v then (position s)(p := v) else position s),
           position_set := (position_set s)(p := 0 \<le> sint v),
           prefs_int := f\<rparr>"
proof (cases "0 \<le> sint v")
  case True
  obtain f where
    "run_notify_position
       (s\<lparr>position := (position s)(p := v), position_set := (position_set s)(p := True)\<rparr>)
       p (handlers s)
     = s\<lparr>position := (position s)(p := v), position_set := (position_set s)(p := True),
         prefs_int := f\<rparr>"
    using run_notify_position_frame by blast
  then show ?thesis
    using True by (auto simp: gtk_paned_set_position_def g_object_notify_position_def)
next
  case False
  obtain f where
    "run_notify_position (s\<lparr>position_set := (position_set s)(p := False)\<rparr>) p (handlers s)
     = s\<lparr>position_set := (position_set s)(p := False), prefs_int := f\<rparr>"
    using run_notify_position_frame by blast
  then show ?thesis
    using False by (auto simp: gtk_paned_set_position_def g_object_notify_position_def)
qed

lemma notify_max_position_cb_changes:
  "\<exists>f k g h. notify_max_position_cb s p gtkblist
               = s\<lparr>position := f, position_set := k, prefs_int := g, handlers := h\<rparr>"
proof -
  obtain v where v: "notify_max_position_cb s p gtkblist =
      g_object_connect
        (g_object_disconnect (gtk_paned_set_position s p v) p
           CB_notify_max_position (Some (Blist gtkblist)))
        p ''notify::position'' CB_notify_position (Some (Blist gtkblist))"
    by (simp add: notify_max_position_cb_def Let_def)
  obtain g where g: "gtk_paned_set_position s p v =
         s\<lparr>position := (if 0 \<le> sint v then (position s)(p := v) else position s),
           position_set := (position_set s)(p := 0 \<le> sint v),
           prefs_int := g\<rparr>"
    using gtk_paned_set_position_frame by blast
  have "notify_max_position_cb s p gtkblist =
          s\<lparr>position := (if 0 \<le> sint v then (position s)(p := v) else position s),
            position_set := (position_set s)(p := 0 \<le> sint v),
            prefs_int := g,
            handlers :=
              filter (\<lambda>h. \<not> matches_any_signal p CB_notify_max_position
                                 (Some (Blist gtkblist)) h) (handlers s)
              @ [Handler p ''notify::position'' CB_notify_position (Some (Blist gtkblist))]\<rparr>"
    unfolding v g by (simp add: g_object_connect_def g_object_disconnect_def)
  then show ?thesis by blast
qed

lemma notify_max_position_cb_position:
  fixes s :: gtk_state and gobject :: wid and gtkblist :: PidginBuddyList and sz :: gint
  defines "sz \<equiv>
     (if paned_child1 s gobject = Some (bl_notebook gtkblist)
      then prefs_int s (if kind s gobject = GtkVPaned then PREF_HEIGHT else PREF_WIDTH)
      else max_position s gobject
           - prefs_int s (if kind s gobject = GtkVPaned then PREF_HEIGHT else PREF_WIDTH))"
  shows "position (notify_max_position_cb s gobject gtkblist) gobject =
           (if 0 \<le> sint sz then sz else position s gobject)"
    and "position_set (notify_max_position_cb s gobject gtkblist) gobject = (0 \<le> sint sz)"
proof -
  obtain f where f: "gtk_paned_set_position s gobject sz =
         s\<lparr>position := (if 0 \<le> sint sz then (position s)(gobject := sz) else position s),
           position_set := (position_set s)(gobject := 0 \<le> sint sz),
           prefs_int := f\<rparr>"
    using gtk_paned_set_position_frame by blast
  have e: "notify_max_position_cb s gobject gtkblist =
          g_object_connect
            (g_object_disconnect (gtk_paned_set_position s gobject sz) gobject
               CB_notify_max_position (Some (Blist gtkblist)))
            gobject ''notify::position'' CB_notify_position (Some (Blist gtkblist))"
    by (simp add: notify_max_position_cb_def Let_def sz_def GTK_IS_VPANED_def
        purple_prefs_get_int_def gtk_paned_get_child1_def g_object_get_max_position_def)
  show "position (notify_max_position_cb s gobject gtkblist) gobject =
           (if 0 \<le> sint sz then sz else position s gobject)"
    unfolding e f by (simp add: g_object_connect_def g_object_disconnect_def)
  show "position_set (notify_max_position_cb s gobject gtkblist) gobject = (0 \<le> sint sz)"
    unfolding e f by (simp add: g_object_connect_def g_object_disconnect_def)
qed

text \<open>
  C2. \<open>pwm_merge_conversation\<close> is guarded against a double merge: on a Buddy List
  whose conversation-window association is non-null it returns at once and the state is
  the one it was given, so no conversation window is created, no slot is overwritten and
  no key binding is skipped again.
\<close>

theorem merge_guard_changes_nothing:
  "pwm_blist_get_convs s gtkblist \<noteq> None \<Longrightarrow> pwm_merge_conversation s gtkblist = Some s"
  by (simp add: pwm_merge_conversation_def)

theorem merge_guard_changes_nothing_witness:
  "pwm_blist_get_convs merged0 blist0 \<noteq> None
   \<and> pwm_merge_conversation merged0 blist0 = Some merged0"
proof -
  have h: "pwm_blist_get_convs merged0 blist0 \<noteq> None"
    by (simp add: slot_defs merged0_def blist0_def)
  show ?thesis using h merge_guard_changes_nothing [OF h] by simp
qed

text \<open>
  C5. \<open>notify_position_cb\<close> stores the size of the Buddy List pane under exactly one
  preference key, chosen by the orientation of the paned: the height key for a vertical
  paned and the width key otherwise. The other key and everything else keep their
  values. The stored size is the slider position when the notebook of the Buddy List is
  the first child of the paned, and max-position minus position when it is not.
\<close>

theorem notify_position_cb_stores_size:
  "prefs_int (notify_position_cb s gobject gtkblist)
      (if GTK_IS_VPANED s gobject then PREF_HEIGHT else PREF_WIDTH)
     = (if gtk_paned_get_child1 s gobject = Some (bl_notebook gtkblist)
        then gtk_paned_get_position s gobject
        else g_object_get_max_position s gobject - gtk_paned_get_position s gobject)
   \<and> prefs_int (notify_position_cb s gobject gtkblist)
        (if GTK_IS_VPANED s gobject then PREF_WIDTH else PREF_HEIGHT)
     = prefs_int s (if GTK_IS_VPANED s gobject then PREF_WIDTH else PREF_HEIGHT)
   \<and> notify_position_cb s gobject gtkblist
     = s\<lparr>prefs_int := prefs_int (notify_position_cb s gobject gtkblist)\<rparr>"
  by (simp add: notify_position_cb_eq GTK_IS_VPANED_def gtk_paned_get_child1_def
      gtk_paned_get_position_def g_object_get_max_position_def)

text \<open>
  C6. Storing and restoring the pane size is a round trip. Let \<open>notify_position_cb\<close>
  store the size computed from the slider position \<open>p\<close> of a paned in state \<open>s\<close>, a
  slider position being never negative. In any later state \<open>t\<close> that holds this stored
  preference and in which the paned has the same orientation, the same first child and
  the same max-position, wherever its slider stands, \<open>notify_max_position_cb\<close> reads
  the preference back with the same key and the same inversion and sets the slider to
  exactly \<open>p\<close>.
\<close>

theorem pane_size_round_trip:
  assumes stored:
      "purple_prefs_get_int t (if GTK_IS_VPANED s gobject then PREF_HEIGHT else PREF_WIDTH)
         = purple_prefs_get_int (notify_position_cb s gobject gtkblist)
             (if GTK_IS_VPANED s gobject then PREF_HEIGHT else PREF_WIDTH)"
    and same: "GTK_IS_VPANED t gobject = GTK_IS_VPANED s gobject"
              "gtk_paned_get_child1 t gobject = gtk_paned_get_child1 s gobject"
              "g_object_get_max_position t gobject = g_object_get_max_position s gobject"
    and slider: "0 \<le> sint (gtk_paned_get_position s gobject)"
  shows "gtk_paned_get_position (notify_max_position_cb t gobject gtkblist) gobject
           = gtk_paned_get_position s gobject
         \<and> position_set (notify_max_position_cb t gobject gtkblist) gobject"
  using assms
  by (simp add: gtk_paned_get_position_def notify_max_position_cb_position
      notify_position_cb_eq GTK_IS_VPANED_def gtk_paned_get_child1_def
      g_object_get_max_position_def purple_prefs_get_int_def)

theorem pane_size_round_trip_witness:
  "gtk_paned_get_position merged0 13 = 300
   \<and> purple_prefs_get_int stored0 PREF_WIDTH = 300
   \<and> gtk_paned_get_position stored0 13 = 0
   \<and> gtk_paned_get_position (notify_max_position_cb stored0 13 blist0) 13 = 300
   \<and> position_set (notify_max_position_cb stored0 13 blist0) 13
   \<and> gtk_paned_get_position swapped0 13 = 300
   \<and> purple_prefs_get_int swapped_stored0 PREF_WIDTH = 700
   \<and> gtk_paned_get_position swapped_stored0 13 = 0
   \<and> gtk_paned_get_position (notify_max_position_cb swapped_stored0 13 blist0) 13 = 300
   \<and> position_set (notify_max_position_cb swapped_stored0 13 blist0) 13"
proof -
  have a: "purple_prefs_get_int stored0 (if GTK_IS_VPANED merged0 13 then PREF_HEIGHT else PREF_WIDTH)
             = purple_prefs_get_int (notify_position_cb merged0 13 blist0)
                 (if GTK_IS_VPANED merged0 13 then PREF_HEIGHT else PREF_WIDTH)"
    "GTK_IS_VPANED stored0 13 = GTK_IS_VPANED merged0 13"
    "gtk_paned_get_child1 stored0 13 = gtk_paned_get_child1 merged0 13"
    "g_object_get_max_position stored0 13 = g_object_get_max_position merged0 13"
    "0 \<le> sint (gtk_paned_get_position merged0 13)"
    by (simp_all add: stored0_def notify_position_cb_eq purple_prefs_get_int_def
        GTK_IS_VPANED_def gtk_paned_get_child1_def g_object_get_max_position_def
        gtk_paned_get_position_def merged0_def)
  have b: "purple_prefs_get_int swapped_stored0
               (if GTK_IS_VPANED swapped0 13 then PREF_HEIGHT else PREF_WIDTH)
             = purple_prefs_get_int (notify_position_cb swapped0 13 blist0)
                 (if GTK_IS_VPANED swapped0 13 then PREF_HEIGHT else PREF_WIDTH)"
    "GTK_IS_VPANED swapped_stored0 13 = GTK_IS_VPANED swapped0 13"
    "gtk_paned_get_child1 swapped_stored0 13 = gtk_paned_get_child1 swapped0 13"
    "g_object_get_max_position swapped_stored0 13 = g_object_get_max_position swapped0 13"
    "0 \<le> sint (gtk_paned_get_position swapped0 13)"
    by (simp_all add: swapped_stored0_def swapped0_def notify_position_cb_eq
        purple_prefs_get_int_def GTK_IS_VPANED_def gtk_paned_get_child1_def
        g_object_get_max_position_def gtk_paned_get_position_def merged0_def)
  have c: "gtk_paned_get_position merged0 13 = 300"
    "purple_prefs_get_int stored0 PREF_WIDTH = 300"
    "gtk_paned_get_position stored0 13 = 0"
    "gtk_paned_get_position swapped0 13 = 300"
    "purple_prefs_get_int swapped_stored0 PREF_WIDTH = 700"
    "gtk_paned_get_position swapped_stored0 13 = 0"
    by (simp_all add: stored0_def swapped_stored0_def swapped0_def notify_position_cb_eq
        purple_prefs_get_int_def gtk_paned_get_position_def merged0_def blist0_def)
  show ?thesis
    using c pane_size_round_trip [OF a] pane_size_round_trip [OF b] by simp
qed

subsection \<open>Menu visibility\<close>

text \<open>
  C9. \<open>pwm_set_conv_menus_visible\<close> shows every menu item of the stored
  conversation-menu list when \<open>visible\<close> is true and hides every one of them when it
  is false; no other widget and nothing else of the state is touched. With an empty or
  absent list, as on a Buddy List that is not merged, it changes nothing at all.
\<close>

theorem conv_menus_visible_sets_items:
  "visible (pwm_set_conv_menus_visible s gtkblist vis) w
     = (if w \<in> set (glist_of (pwm_fetch s gtkblist ''conv_menus'')) then vis else visible s w)
   \<and> pwm_set_conv_menus_visible s gtkblist vis
     = s\<lparr>visible := visible (pwm_set_conv_menus_visible s gtkblist vis)\<rparr>
   \<and> (glist_of (pwm_fetch s gtkblist ''conv_menus'') = []
        \<longrightarrow> pwm_set_conv_menus_visible s gtkblist vis = s)"
  by (simp add: pwm_set_conv_menus_visible_eq)

theorem conv_menus_visible_sets_items_witness:
  "glist_of (pwm_fetch pristine blist0 ''conv_menus'') = []
   \<and> pwm_set_conv_menus_visible pristine blist0 True = pristine
   \<and> visible merged0 10 = False
   \<and> visible (pwm_set_conv_menus_visible merged0 blist0 True) 10 = True
   \<and> visible (pwm_set_conv_menus_visible merged0 blist0 True) 14 = False"
proof -
  have h: "glist_of (pwm_fetch pristine blist0 ''conv_menus'') = []"
    by (simp add: glist_of_def slot_defs pristine_def)
  have m: "glist_of (pwm_fetch merged0 blist0 ''conv_menus'') = [10, 12]"
    by (simp add: glist_of_def slot_defs merged0_def blist0_def)
  have v: "visible merged0 10 = False" "visible merged0 14 = False"
    by (simp_all add: merged0_def)
  show ?thesis
    using h v conv_menus_visible_sets_items [of pristine blist0 True 0]
      conv_menus_visible_sets_items [of merged0 blist0 True 10]
      conv_menus_visible_sets_items [of merged0 blist0 True 14]
    unfolding m by simp
qed

subsection \<open>Undoing the merge\<close>

text \<open>
  C7. On a merged Buddy List \<open>pwm_split_conversation\<close> returns, and afterwards every
  slot the merge created is empty: the conversation window pointer, the menu-item list,
  the placeholder widget, the paned container and the original title. Both directions of
  the association are gone, the conversation-window tag of the Buddy List notebook and
  the Buddy List tag of the conversation notebook. No object has gained any data.
\<close>

theorem split_clears_every_slot:
  assumes "conv_window_of s (pwm_blist_get_convs s gtkblist) = Some (c, cw)"
  shows "\<exists>s'. pwm_split_conversation s gtkblist = Some s'
           \<and> pwm_fetch s' gtkblist ''conv_window'' = None
           \<and> pwm_fetch s' gtkblist ''conv_menus'' = None
           \<and> pwm_fetch s' gtkblist ''placeholder'' = None
           \<and> pwm_fetch s' gtkblist ''paned'' = None
           \<and> pwm_fetch s' gtkblist ''title'' = None
           \<and> pwm_blist_get_convs s' gtkblist = None
           \<and> g_object_get_data s' (cw_notebook cw) ''pwm_blist'' = None
           \<and> (\<forall>obj key. object_data s' obj key = None
                          \<or> object_data s' obj key = object_data s obj key)"
proof -
  obtain s' where s': "pwm_split_conversation s gtkblist = Some s'"
    using split_succeeds [OF assms] by blast
  have d: "object_data s' obj key =
           (if obj = bl_notebook gtkblist \<and> key = ''pwm_title'' then None
            else if obj = bl_notebook gtkblist \<and> key = ''pwm_paned'' then None
            else if obj = bl_notebook gtkblist \<and> key = ''pwm_placeholder'' then None
            else if obj = bl_notebook gtkblist \<and> key = ''pwm_conv_menus'' then None
            else if obj = bl_notebook gtkblist \<and> key = ''pwm_conv_window'' then None
            else if obj = cw_notebook cw \<and> key = ''pwm_blist'' then None
            else if obj = bl_notebook gtkblist \<and> key = ''pwm_convs'' then None
            else object_data s obj key)" for obj key
    using split_object_data [OF assms, of obj key] s' by simp
  have "pwm_fetch s' gtkblist ''conv_window'' = None"
    by (simp add: slot_defs d)
  moreover have "pwm_fetch s' gtkblist ''conv_menus'' = None"
    by (simp add: slot_defs d)
  moreover have "pwm_fetch s' gtkblist ''placeholder'' = None"
    by (simp add: slot_defs d)
  moreover have "pwm_fetch s' gtkblist ''paned'' = None"
    by (simp add: slot_defs d)
  moreover have "pwm_fetch s' gtkblist ''title'' = None"
    by (simp add: slot_defs d)
  moreover have "pwm_blist_get_convs s' gtkblist = None"
    by (simp add: slot_defs d)
  moreover have "g_object_get_data s' (cw_notebook cw) ''pwm_blist'' = None"
    by (simp add: slot_defs d)
  moreover have "\<forall>obj key. object_data s' obj key = None
                          \<or> object_data s' obj key = object_data s obj key"
    by (simp add: d)
  ultimately show ?thesis using s' by blast
qed

theorem split_clears_every_slot_witness:
  "conv_window_of merged0 (pwm_blist_get_convs merged0 blist0)
     = Some (0, \<lparr>cw_window = Some 0, cw_notebook = 9, cw_menubar = 8\<rparr>)
   \<and> (\<exists>s'. pwm_split_conversation merged0 blist0 = Some s'
           \<and> pwm_fetch s' blist0 ''conv_window'' = None
           \<and> pwm_fetch s' blist0 ''conv_menus'' = None
           \<and> pwm_fetch s' blist0 ''placeholder'' = None
           \<and> pwm_fetch s' blist0 ''paned'' = None
           \<and> pwm_fetch s' blist0 ''title'' = None
           \<and> pwm_blist_get_convs s' blist0 = None
           \<and> g_object_get_data s' 9 ''pwm_blist'' = None)"
proof -
  have h: "conv_window_of merged0 (pwm_blist_get_convs merged0 blist0)
             = Some (0, \<lparr>cw_window = Some 0, cw_notebook = 9, cw_menubar = 8\<rparr>)"
    by (simp add: conv_window_of_def slot_defs merged0_def blist0_def)
  show ?thesis
    using h split_clears_every_slot [OF h] by auto
qed

subsection \<open>The widget tree\<close>

lemma gtk_container_remove_tree:
  "parent (gtk_container_remove s c w) w' =
     (if w' = w \<and> parent s w = Some c then None else parent s w')"
  "paned_child1 (gtk_container_remove s c w) q =
     (if q = c \<and> parent s w = Some c \<and> GTK_IS_PANED s c \<and> paned_child1 s c = Some w
      then None else paned_child1 s q)"
  "paned_child2 (gtk_container_remove s c w) q =
     (if q = c \<and> parent s w = Some c \<and> GTK_IS_PANED s c \<and> paned_child1 s c \<noteq> Some w
         \<and> paned_child2 s c = Some w
      then None else paned_child2 s q)"
  by (auto simp: gtk_container_remove_def)

lemma gtk_container_add_tree:
  "parent (gtk_container_add s c w) w' =
     (if w' = w \<and> parent s w = None
         \<and> (GTK_IS_PANED s c \<longrightarrow> paned_child1 s c = None \<or> paned_child2 s c = None)
      then Some c else parent s w')"
  "paned_child1 (gtk_container_add s c w) q =
     (if q = c \<and> parent s w = None \<and> GTK_IS_PANED s c \<and> paned_child1 s c = None
      then Some w else paned_child1 s q)"
  "paned_child2 (gtk_container_add s c w) q =
     (if q = c \<and> parent s w = None \<and> GTK_IS_PANED s c \<and> paned_child1 s c \<noteq> None
         \<and> paned_child2 s c = None
      then Some w else paned_child2 s q)"
  by (auto simp: gtk_container_add_def)

lemma insert_child_tree:
  "w' \<noteq> w \<Longrightarrow> parent (insert_child s c i w) w' = parent s w'"
  "q \<noteq> c \<Longrightarrow> paned_child1 (insert_child s c i w) q = paned_child1 s q"
  "q \<noteq> c \<Longrightarrow> paned_child2 (insert_child s c i w) q = paned_child2 s q"
  by (auto simp: insert_child_def)

lemma reparent_into_paned:
  assumes "parent s w \<noteq> None" "parent s w \<noteq> Some p" "GTK_IS_PANED s p"
  shows "paned_child1 (gtk_widget_reparent s w (Some p)) p =
           (if paned_child1 s p = None then Some w else paned_child1 s p)"
    and "paned_child2 (gtk_widget_reparent s w (Some p)) p =
           (if paned_child1 s p \<noteq> None \<and> paned_child2 s p = None then Some w
            else paned_child2 s p)"
    and "w' \<noteq> w \<Longrightarrow> parent (gtk_widget_reparent s w (Some p)) w' = parent s w'"
  using assms
  by (auto simp: gtk_widget_reparent_def gtk_container_add_tree gtk_container_remove_tree
      GTK_IS_PANED_def split: option.splits)

lemma reparent_parent_none:
  "parent s p = None \<Longrightarrow> parent (gtk_widget_reparent s w np) p = None"
  by (cases "w = p")
     (auto simp: gtk_widget_reparent_def gtk_container_add_tree gtk_container_remove_tree
       split: option.splits)

lemma widget_replace_into_paned:
  assumes "parent s orig \<noteq> None" "parent s orig \<noteq> Some st" "parent s repl = None"
    "GTK_IS_PANED s st"
  shows "paned_child1 (pwm_widget_replace s (Some orig) (Some repl) (Some st)) st =
           (if paned_child1 s st = None then Some orig else paned_child1 s st)"
    and "paned_child2 (pwm_widget_replace s (Some orig) (Some repl) (Some st)) st =
           (if paned_child1 s st \<noteq> None \<and> paned_child2 s st = None then Some orig
            else paned_child2 s st)"
    and "w \<noteq> orig \<Longrightarrow> w \<noteq> repl \<Longrightarrow>
           parent (pwm_widget_replace s (Some orig) (Some repl) (Some st)) w = parent s w"
  using assms
  by (auto simp: pwm_widget_replace_def gtk_widget_get_parent_def Let_def
      insert_child_tree reparent_into_paned GTK_IS_PANED_def)

lemma widget_replace_destroy_other:
  assumes "parent s repl = None" "parent s orig \<noteq> Some q" "orig \<noteq> q"
  shows "paned_child1 (pwm_widget_replace s (Some orig) (Some repl) None) q = paned_child1 s q"
    and "paned_child2 (pwm_widget_replace s (Some orig) (Some repl) None) q = paned_child2 s q"
  using assms
  by (auto simp: pwm_widget_replace_def gtk_widget_get_parent_def Let_def
      gtk_widget_destroy_def insert_child_tree gtk_container_remove_tree
      split: option.splits)

subsection \<open>New objects\<close>

lemma g_object_new_fst [simp]: "fst (g_object_new s k) = next_obj s"
  by (simp add: g_object_new_def Let_def)

lemma g_object_new_frame [simp]:
  "windows (snd (g_object_new s k)) = windows s"
  "next_win (snd (g_object_new s k)) = next_win s"
  "imhtml_skipped (snd (g_object_new s k)) = imhtml_skipped s"
  "prefs_int (snd (g_object_new s k)) = prefs_int s"
  "prefs_string (snd (g_object_new s k)) = prefs_string s"
  "conv_menu_layout (snd (g_object_new s k)) = conv_menu_layout s"
  "next_obj (snd (g_object_new s k)) = Suc (next_obj s)"
  "kind (snd (g_object_new s k)) = (kind s)(next_obj s := k)"
  "parent (snd (g_object_new s k)) = (parent s)(next_obj s := None)"
  "paned_child1 (snd (g_object_new s k)) = (paned_child1 s)(next_obj s := None)"
  "paned_child2 (snd (g_object_new s k)) = (paned_child2 s)(next_obj s := None)"
  "object_data (snd (g_object_new s k)) = (object_data s)(next_obj s := (\<lambda>_. None))"
  "position (snd (g_object_new s k)) = (position s)(next_obj s := 0)"
  "handlers (snd (g_object_new s k)) = filter (\<lambda>h. handler_object h \<noteq> next_obj s) (handlers s)"
  by (simp_all add: g_object_new_def Let_def)

lemmas new_defs = gtk_vpaned_new_def gtk_hpaned_new_def gtk_label_new_def

lemma pwm_widget_replace_handlers_storage [simp]:
  "handlers (pwm_widget_replace s a b (Some st)) = handlers s"
  by (simp add: pwm_widget_replace_def Let_def gtk_widget_get_parent_def split: option.splits)

lemma pwm_widget_replace_handlers_on:
  "[h \<leftarrow> handlers (pwm_widget_replace s a b None). handler_object h = p]
     = (if Some p = a \<and> b \<noteq> None \<and> parent s p \<noteq> None then []
        else [h \<leftarrow> handlers s. handler_object h = p])"
  by (auto simp: pwm_widget_replace_def Let_def gtk_widget_get_parent_def
      gtk_widget_destroy_def filter_empty_conv
      split: option.splits intro!: filter_cong)

subsection \<open>The paned layout, block by block\<close>

lemma layout_new_paned_fst [simp]: "fst (layout_new_paned s gtkblist side) = next_obj s"
  by (simp add: layout_new_paned_def Let_def case_prod_beta new_defs)

lemma layout_new_paned_frame [simp]:
  "windows (snd (layout_new_paned s gtkblist side)) = windows s"
  "imhtml_skipped (snd (layout_new_paned s gtkblist side)) = imhtml_skipped s"
  "prefs_int (snd (layout_new_paned s gtkblist side)) = prefs_int s"
  "prefs_string (snd (layout_new_paned s gtkblist side)) = prefs_string s"
  "next_obj (snd (layout_new_paned s gtkblist side)) = Suc (next_obj s)"
  "parent (snd (layout_new_paned s gtkblist side)) = (parent s)(next_obj s := None)"
  "paned_child1 (snd (layout_new_paned s gtkblist side)) = (paned_child1 s)(next_obj s := None)"
  "paned_child2 (snd (layout_new_paned s gtkblist side)) = (paned_child2 s)(next_obj s := None)"
  "position (snd (layout_new_paned s gtkblist side)) = (position s)(next_obj s := 0)"
  "handlers (snd (layout_new_paned s gtkblist side)) =
     filter (\<lambda>h. handler_object h \<noteq> next_obj s) (handlers s)
     @ [Handler (next_obj s) ''notify::max-position'' CB_notify_max_position
          (Some (Blist gtkblist))]"
  by (simp_all add: layout_new_paned_def Let_def case_prod_beta new_defs update_defs pwm_store_def)

lemma layout_new_paned_kind [simp]:
  "kind (snd (layout_new_paned s gtkblist side)) =
     (kind s)(next_obj s :=
        if side \<noteq> None \<and> (first_char (the side) = CHR ''t'' \<or> first_char (the side) = CHR ''b'')
        then GtkVPaned else GtkHPaned)"
  by (simp add: layout_new_paned_def Let_def case_prod_beta new_defs update_defs pwm_store_def)

lemma layout_new_paned_data [simp]:
  "object_data (snd (layout_new_paned s gtkblist side)) obj key =
     (if obj = bl_notebook gtkblist \<and> key = ''pwm_paned'' then Some (Widget (next_obj s))
      else if obj = next_obj s then None
      else object_data s obj key)"
  by (simp add: layout_new_paned_def Let_def case_prod_beta new_defs update_defs pwm_store_def)

lemma layout_pristine_frame [simp]:
  "windows (layout_pristine s gtkblist cw paned side) = windows s"
  "imhtml_skipped (layout_pristine s gtkblist cw paned side) = imhtml_skipped s"
  "prefs_int (layout_pristine s gtkblist cw paned side) = prefs_int s"
  "prefs_string (layout_pristine s gtkblist cw paned side) = prefs_string s"
  "next_obj (layout_pristine s gtkblist cw paned side) = Suc (next_obj s)"
  "kind (layout_pristine s gtkblist cw paned side) = (kind s)(next_obj s := GtkLabel)"
  "position (layout_pristine s gtkblist cw paned side) = (position s)(next_obj s := 0)"
  "handlers (layout_pristine s gtkblist cw paned side) =
     filter (\<lambda>h. handler_object h \<noteq> next_obj s) (handlers s)"
  by (simp_all add: layout_pristine_def Let_def case_prod_beta new_defs pwm_store_def)

lemma layout_pristine_data [simp]:
  "object_data (layout_pristine s gtkblist cw paned side) obj key =
     (if obj = bl_notebook gtkblist \<and> key = ''pwm_placeholder''
      then Some (Widget (next_obj s))
      else if obj = next_obj s then None
      else object_data s obj key)"
  by (simp add: layout_pristine_def Let_def case_prod_beta new_defs pwm_store_def)

lemma layout_replace_frame [simp]:
  "windows (layout_replace s gtkblist cw paned old_paned side) = windows s"
  "imhtml_skipped (layout_replace s gtkblist cw paned old_paned side) = imhtml_skipped s"
  "prefs_int (layout_replace s gtkblist cw paned old_paned side) = prefs_int s"
  "prefs_string (layout_replace s gtkblist cw paned old_paned side) = prefs_string s"
  "next_obj (layout_replace s gtkblist cw paned old_paned side) = next_obj s"
  "kind (layout_replace s gtkblist cw paned old_paned side) = kind s"
  "position (layout_replace s gtkblist cw paned old_paned side) = position s"
  "object_data (layout_replace s gtkblist cw paned old_paned side) = object_data s"
  by (simp_all add: layout_replace_def Let_def)

lemma layout_set_resize_frame [simp]:
  "windows (layout_set_resize s gtkblist cw paned) = windows s"
  "imhtml_skipped (layout_set_resize s gtkblist cw paned) = imhtml_skipped s"
  "prefs_int (layout_set_resize s gtkblist cw paned) = prefs_int s"
  "prefs_string (layout_set_resize s gtkblist cw paned) = prefs_string s"
  "next_obj (layout_set_resize s gtkblist cw paned) = next_obj s"
  "kind (layout_set_resize s gtkblist cw paned) = kind s"
  "position (layout_set_resize s gtkblist cw paned) = position s"
  "object_data (layout_set_resize s gtkblist cw paned) = object_data s"
  "handlers (layout_set_resize s gtkblist cw paned) = handlers s"
  "parent (layout_set_resize s gtkblist cw paned) = parent s"
  "paned_child1 (layout_set_resize s gtkblist cw paned) = paned_child1 s"
  "paned_child2 (layout_set_resize s gtkblist cw paned) = paned_child2 s"
  by (simp_all add: layout_set_resize_def Let_def)

lemma create_paned_layout_eq:
  assumes "conv_window_of s (pwm_blist_get_convs s gtkblist) = Some (c, cw)"
  shows "pwm_create_paned_layout s gtkblist side =
           Some (layout_set_resize
                   (if pwm_fetch s gtkblist ''paned'' = None
                    then layout_pristine (snd (layout_new_paned s gtkblist side)) gtkblist cw
                           (next_obj s) side
                    else layout_replace (snd (layout_new_paned s gtkblist side)) gtkblist cw
                           (next_obj s) (pwm_fetch s gtkblist ''paned'') side)
                   gtkblist cw (next_obj s))"
proof -
  have "conv_window_of (snd (layout_new_paned s gtkblist side)) (pwm_blist_get_convs s gtkblist)
          = Some (c, cw)"
    using assms by (auto simp: conv_window_of_def split: option.splits gpointer.splits)
  then show ?thesis
    by (simp add: pwm_create_paned_layout_def Let_def case_prod_beta)
qed

lemma create_paned_layout_frame:
  assumes "conv_window_of s (pwm_blist_get_convs s gtkblist) = Some (c, cw)"
    and "pwm_create_paned_layout s gtkblist side = Some s'"
  shows "windows s' = windows s"
    and "imhtml_skipped s' = imhtml_skipped s"
    and "prefs_int s' = prefs_int s"
    and "next_obj s < next_obj s'"
    and "kind s' (next_obj s) =
           (if side \<noteq> None \<and> (first_char (the side) = CHR ''t'' \<or> first_char (the side) = CHR ''b'')
            then GtkVPaned else GtkHPaned)"
  using assms(2) unfolding create_paned_layout_eq [OF assms(1)]
  by (cases "pwm_fetch s gtkblist ''paned'' = None"; auto)+

lemma create_paned_layout_data:
  assumes "conv_window_of s (pwm_blist_get_convs s gtkblist) = Some (c, cw)"
    and "pwm_create_paned_layout s gtkblist side = Some s'"
    and "obj < next_obj s"
  shows "object_data s' obj key =
           (if obj = bl_notebook gtkblist \<and> key = ''pwm_placeholder''
                    \<and> pwm_fetch s gtkblist ''paned'' = None
            then Some (Widget (Suc (next_obj s)))
            else if obj = bl_notebook gtkblist \<and> key = ''pwm_paned''
            then Some (Widget (next_obj s))
            else object_data s obj key)"
  using assms(2,3) unfolding create_paned_layout_eq [OF assms(1)]
  by (cases "pwm_fetch s gtkblist ''paned'' = None"; auto)

lemma create_paned_layout_handlers:
  assumes "conv_window_of s (pwm_blist_get_convs s gtkblist) = Some (c, cw)"
    and "pwm_create_paned_layout s gtkblist side = Some s'"
  shows "[h \<leftarrow> handlers s'. handler_object h = next_obj s]
         = [Handler (next_obj s) ''notify::max-position'' CB_notify_max_position
              (Some (Blist gtkblist))]"
proof -
  let ?s1 = "snd (layout_new_paned s gtkblist side)"
  have a: "[h \<leftarrow> handlers ?s1. handler_object h = next_obj s]
           = [Handler (next_obj s) ''notify::max-position'' CB_notify_max_position
                (Some (Blist gtkblist))]"
    by (auto simp: filter_empty_conv)
  have p: "parent (gtk_widget_reparent (gtk_widget_reparent ?s1 x (Some (next_obj s))) y
             (Some (next_obj s))) (next_obj s) = None" for x y
    by (simp add: reparent_parent_none)
  have c: "[h \<leftarrow> handlers (layout_replace ?s1 gtkblist cw (next_obj s) op side).
              handler_object h = next_obj s]
           = [h \<leftarrow> handlers ?s1. handler_object h = next_obj s]" for op
    unfolding layout_replace_def Let_def
    by (simp add: pwm_widget_replace_handlers_on p del: layout_new_paned_frame)
  show ?thesis
  proof (cases "pwm_fetch s gtkblist ''paned'' = None")
    case True
    then have "s' = layout_set_resize (layout_pristine ?s1 gtkblist cw (next_obj s) side)
                      gtkblist cw (next_obj s)"
      using assms(2) unfolding create_paned_layout_eq [OF assms(1)] by auto
    then show ?thesis by (auto simp: filter_empty_conv)
  next
    case False
    then have "s' = layout_set_resize
                      (layout_replace ?s1 gtkblist cw (next_obj s)
                         (pwm_fetch s gtkblist ''paned'') side)
                      gtkblist cw (next_obj s)"
      using assms(2) unfolding create_paned_layout_eq [OF assms(1)] by auto
    then show ?thesis using a c by simp
  qed
qed

lemma side_vertical:
  "(side \<noteq> None \<and> (first_char (the side) = CHR ''t'' \<or> first_char (the side) = CHR ''b''))
     = (\<exists>cs. side = Some (CHR ''t'' # cs) \<or> side = Some (CHR ''b'' # cs))"
  by (cases side; cases "the side"; auto simp: first_char_def)

lemma side_first:
  "(side \<noteq> None \<and> (first_char (the side) = CHR ''t'' \<or> first_char (the side) = CHR ''l''))
     = (\<exists>cs. side = Some (CHR ''t'' # cs) \<or> side = Some (CHR ''l'' # cs))"
  by (cases side; cases "the side"; auto simp: first_char_def)

lemma layout_pristine_panes:
  assumes par: "parent s cnb \<noteq> None" "parent s cnb \<noteq> Some p"
               "parent s bnb \<noteq> None" "parent s bnb \<noteq> Some p"
    and new: "GTK_IS_PANED s p" "paned_child1 s p = None" "paned_child2 s p = None"
             "parent s p = None"
    and ne: "cnb \<noteq> bnb" "cnb \<noteq> p" "bnb \<noteq> p"
            "cnb \<noteq> next_obj s" "bnb \<noteq> next_obj s" "p \<noteq> next_obj s"
    and nb: "cw_notebook cw = cnb" "bl_notebook gtkblist = bnb"
  shows "paned_child1 (layout_pristine s gtkblist cw p side) p
           = Some (if side \<noteq> None \<and> (first_char (the side) = CHR ''t''
                                     \<or> first_char (the side) = CHR ''l'') then cnb else bnb)"
    and "paned_child2 (layout_pristine s gtkblist cw p side) p
           = Some (if side \<noteq> None \<and> (first_char (the side) = CHR ''t''
                                     \<or> first_char (the side) = CHR ''l'') then bnb else cnb)"
proof -
  define ph where "ph = next_obj s"
  define s1 where "s1 = snd (gtk_label_new s)"
  have s1: "parent s1 cnb \<noteq> None" "parent s1 cnb \<noteq> Some p"
           "parent s1 bnb \<noteq> None" "parent s1 bnb \<noteq> Some p"
           "GTK_IS_PANED s1 p" "paned_child1 s1 p = None" "paned_child2 s1 p = None"
           "parent s1 p = None" "parent s1 ph = None"
    using par new ne by (simp_all add: s1_def ph_def gtk_label_new_def GTK_IS_PANED_def)
  define u where "u = pwm_widget_replace s1 (Some cnb) (Some ph) (Some p)"
  define v where "v = pwm_widget_replace s1 (Some bnb) (Some p) (Some p)"
  have u: "paned_child1 u p = Some cnb" "paned_child2 u p = None"
          "parent u bnb = parent s1 bnb" "parent u p = None" "GTK_IS_PANED u p"
    using s1 ne
    by (simp_all add: u_def widget_replace_into_paned ph_def GTK_IS_PANED_def)
  have v: "paned_child1 v p = Some bnb" "paned_child2 v p = None"
          "parent v cnb = parent s1 cnb" "parent v ph = None" "GTK_IS_PANED v p"
    using s1 ne
    by (simp_all add: v_def widget_replace_into_paned ph_def GTK_IS_PANED_def)
  have uu: "paned_child1 (pwm_widget_replace u (Some bnb) (Some p) (Some p)) p = Some cnb"
           "paned_child2 (pwm_widget_replace u (Some bnb) (Some p) (Some p)) p = Some bnb"
    using u s1 by (simp_all add: widget_replace_into_paned)
  have vv: "paned_child1 (pwm_widget_replace v (Some cnb) (Some ph) (Some p)) p = Some bnb"
           "paned_child2 (pwm_widget_replace v (Some cnb) (Some ph) (Some p)) p = Some cnb"
    using v s1 by (simp_all add: widget_replace_into_paned)
  have e: "layout_pristine s gtkblist cw p side =
             pwm_store
               (if side \<noteq> None \<and> (first_char (the side) = CHR ''t''
                                  \<or> first_char (the side) = CHR ''l'')
                then pwm_widget_replace u (Some bnb) (Some p) (Some p)
                else pwm_widget_replace v (Some cnb) (Some ph) (Some p))
               gtkblist ''placeholder'' (Some (Widget ph))"
    by (simp add: layout_pristine_def Let_def case_prod_beta u_def v_def s1_def ph_def nb
        gtk_label_new_def)
  show "paned_child1 (layout_pristine s gtkblist cw p side) p
           = Some (if side \<noteq> None \<and> (first_char (the side) = CHR ''t''
                                     \<or> first_char (the side) = CHR ''l'') then cnb else bnb)"
    unfolding e pwm_store_def using uu vv by simp
  show "paned_child2 (layout_pristine s gtkblist cw p side) p
           = Some (if side \<noteq> None \<and> (first_char (the side) = CHR ''t''
                                     \<or> first_char (the side) = CHR ''l'') then bnb else cnb)"
    unfolding e pwm_store_def using uu vv by simp
qed

lemma layout_replace_panes:
  assumes par: "parent s cnb \<noteq> None" "parent s cnb \<noteq> Some p"
               "parent s bnb \<noteq> None" "parent s bnb \<noteq> Some p"
    and new: "GTK_IS_PANED s p" "paned_child1 s p = None" "paned_child2 s p = None"
             "parent s p = None"
    and ne: "cnb \<noteq> bnb" "cnb \<noteq> p" "bnb \<noteq> p"
    and old: "\<forall>op. old_paned = Some (Widget op)
                \<longrightarrow> op \<noteq> cnb \<and> op \<noteq> bnb \<and> parent s op \<noteq> Some p"
    and nb: "cw_notebook cw = cnb" "bl_notebook gtkblist = bnb"
  shows "paned_child1 (layout_replace s gtkblist cw p old_paned side) p
           = Some (if side \<noteq> None \<and> (first_char (the side) = CHR ''t''
                                     \<or> first_char (the side) = CHR ''l'') then cnb else bnb)"
    and "paned_child2 (layout_replace s gtkblist cw p old_paned side) p
           = Some (if side \<noteq> None \<and> (first_char (the side) = CHR ''t''
                                     \<or> first_char (the side) = CHR ''l'') then bnb else cnb)"
proof -
  define u where "u = gtk_widget_reparent s cnb (Some p)"
  define v where "v = gtk_widget_reparent s bnb (Some p)"
  have u: "paned_child1 u p = Some cnb" "paned_child2 u p = None"
          "parent u bnb = parent s bnb" "parent u p = None" "GTK_IS_PANED u p"
          "\<And>w. w \<noteq> cnb \<Longrightarrow> parent u w = parent s w"
    using par new ne by (simp_all add: u_def reparent_into_paned GTK_IS_PANED_def)
  have v: "paned_child1 v p = Some bnb" "paned_child2 v p = None"
          "parent v cnb = parent s cnb" "parent v p = None" "GTK_IS_PANED v p"
          "\<And>w. w \<noteq> bnb \<Longrightarrow> parent v w = parent s w"
    using par new ne by (simp_all add: v_def reparent_into_paned GTK_IS_PANED_def)
  define uu where "uu = gtk_widget_reparent u bnb (Some p)"
  define vv where "vv = gtk_widget_reparent v cnb (Some p)"
  have uu: "paned_child1 uu p = Some cnb" "paned_child2 uu p = Some bnb" "parent uu p = None"
           "\<And>w. w \<noteq> cnb \<Longrightarrow> w \<noteq> bnb \<Longrightarrow> parent uu w = parent s w"
    using u par ne by (simp_all add: uu_def reparent_into_paned reparent_parent_none)
  have vv: "paned_child1 vv p = Some bnb" "paned_child2 vv p = Some cnb" "parent vv p = None"
           "\<And>w. w \<noteq> cnb \<Longrightarrow> w \<noteq> bnb \<Longrightarrow> parent vv w = parent s w"
    using v par ne by (simp_all add: vv_def reparent_into_paned reparent_parent_none)
  have e: "layout_replace s gtkblist cw p old_paned side =
             pwm_widget_replace
               (if side \<noteq> None \<and> (first_char (the side) = CHR ''t''
                                  \<or> first_char (the side) = CHR ''l'') then uu else vv)
               (widget_of old_paned) (Some p) None"
    by (simp add: layout_replace_def Let_def uu_def vv_def u_def v_def nb)
  have k: "paned_child1 (pwm_widget_replace t (widget_of old_paned) (Some p) None) p
             = paned_child1 t p
           \<and> paned_child2 (pwm_widget_replace t (widget_of old_paned) (Some p) None) p
             = paned_child2 t p"
    if t: "parent t p = None" "\<And>w. w \<noteq> cnb \<Longrightarrow> w \<noteq> bnb \<Longrightarrow> parent t w = parent s w" for t
  proof (cases "widget_of old_paned")
    case None
    then show ?thesis by (simp add: pwm_widget_replace_def)
  next
    case (Some op)
    then have o: "old_paned = Some (Widget op)"
      by (auto simp: widget_of_def split: option.splits gpointer.splits)
    have "op \<noteq> cnb" "op \<noteq> bnb" "parent s op \<noteq> Some p" using old o by auto
    then have n: "parent t op \<noteq> Some p" using t(2) by simp
    show ?thesis
    proof (cases "op = p")
      case True
      then show ?thesis
        using t(1) Some by (simp add: pwm_widget_replace_def gtk_widget_get_parent_def)
    next
      case False
      then show ?thesis
        using n t(1) Some by (simp add: widget_replace_destroy_other)
    qed
  qed
  show "paned_child1 (layout_replace s gtkblist cw p old_paned side) p
           = Some (if side \<noteq> None \<and> (first_char (the side) = CHR ''t''
                                     \<or> first_char (the side) = CHR ''l'') then cnb else bnb)"
    unfolding e using k [of uu] k [of vv] uu vv by simp
  show "paned_child2 (layout_replace s gtkblist cw p old_paned side) p
           = Some (if side \<noteq> None \<and> (first_char (the side) = CHR ''t''
                                     \<or> first_char (the side) = CHR ''l'') then bnb else cnb)"
    unfolding e using k [of uu] k [of vv] uu vv by simp
qed

text \<open>
  C3. \<open>pwm_create_paned_layout\<close> chooses the orientation of the new paned from the
  first character of \<open>side\<close> alone: on a merged Buddy List it returns, the paned it
  has stored in the slot \<open>paned\<close> is vertical exactly when \<open>side\<close> is non-null and
  begins with \<open>t\<close> or \<open>b\<close>, and it is horizontal in every other case, a null or
  empty \<open>side\<close> and any other first character included.
\<close>

theorem paned_orientation_from_first_char:
  assumes "conv_window_of s (pwm_blist_get_convs s gtkblist) = Some (c, cw)"
    and "bl_notebook gtkblist < next_obj s"
  shows "\<exists>s' p. pwm_create_paned_layout s gtkblist side = Some s'
           \<and> pwm_fetch s' gtkblist ''paned'' = Some (Widget p)
           \<and> GTK_IS_VPANED s' p
               = (\<exists>cs. side = Some (CHR ''t'' # cs) \<or> side = Some (CHR ''b'' # cs))
           \<and> (kind s' p = GtkHPaned)
               = (\<nexists>cs. side = Some (CHR ''t'' # cs) \<or> side = Some (CHR ''b'' # cs))"
proof -
  obtain s' where s': "pwm_create_paned_layout s gtkblist side = Some s'"
    using create_paned_layout_eq [OF assms(1)] by blast
  have "pwm_fetch s' gtkblist ''paned'' = Some (Widget (next_obj s))"
    using create_paned_layout_data [OF assms(1) s' assms(2)] by (simp add: slot_defs)
  moreover have "kind s' (next_obj s) =
      (if \<exists>cs. side = Some (CHR ''t'' # cs) \<or> side = Some (CHR ''b'' # cs)
       then GtkVPaned else GtkHPaned)"
    using create_paned_layout_frame(5) [OF assms(1) s'] unfolding side_vertical .
  ultimately show ?thesis using s' by (auto simp: GTK_IS_VPANED_def)
qed

theorem paned_orientation_from_first_char_witness:
  "conv_window_of merged0 (pwm_blist_get_convs merged0 blist0)
     = Some (0, \<lparr>cw_window = Some 0, cw_notebook = 9, cw_menubar = 8\<rparr>)
   \<and> bl_notebook blist0 < next_obj merged0
   \<and> (\<exists>s' p. pwm_create_paned_layout merged0 blist0 (Some ''bottom'') = Some s'
           \<and> pwm_fetch s' blist0 ''paned'' = Some (Widget p) \<and> GTK_IS_VPANED s' p)
   \<and> (\<exists>s' p. pwm_create_paned_layout merged0 blist0 (Some ''left'') = Some s'
           \<and> pwm_fetch s' blist0 ''paned'' = Some (Widget p) \<and> kind s' p = GtkHPaned)
   \<and> (\<exists>s' p. pwm_create_paned_layout merged0 blist0 (Some ''middle'') = Some s'
           \<and> pwm_fetch s' blist0 ''paned'' = Some (Widget p) \<and> kind s' p = GtkHPaned)
   \<and> (\<exists>s' p. pwm_create_paned_layout merged0 blist0 (Some []) = Some s'
           \<and> pwm_fetch s' blist0 ''paned'' = Some (Widget p) \<and> kind s' p = GtkHPaned)
   \<and> (\<exists>s' p. pwm_create_paned_layout merged0 blist0 None = Some s'
           \<and> pwm_fetch s' blist0 ''paned'' = Some (Widget p) \<and> kind s' p = GtkHPaned)"
proof -
  have h: "conv_window_of merged0 (pwm_blist_get_convs merged0 blist0)
             = Some (0, \<lparr>cw_window = Some 0, cw_notebook = 9, cw_menubar = 8\<rparr>)"
    by (simp add: conv_window_of_def slot_defs merged0_def blist0_def)
  have l: "bl_notebook blist0 < next_obj merged0"
    by (simp add: merged0_def blist0_def)
  note t = paned_orientation_from_first_char [OF h l]
  show ?thesis
    using h l t [of "Some ''bottom''"] t [of "Some ''left''"] t [of "Some ''middle''"]
      t [of "Some []"] t [of None]
    by simp blast
qed

text \<open>
  C4. \<open>pwm_create_paned_layout\<close> puts the conversation notebook into the first pane
  (top or left) exactly when \<open>side\<close> is non-null and begins with \<open>t\<close> or \<open>l\<close>;
  in every other case the notebook of the Buddy List is first and the conversations are
  second (bottom or right). The state is any merged Buddy List whose two notebooks are
  distinct, live and packed in live containers, whether the slot \<open>paned\<close> is empty (the
  initial layout) or holds an earlier paned (the layout being replaced), so the rule is
  the same in both branches.
\<close>

theorem conversations_first_from_first_char:
  assumes merged: "conv_window_of s (pwm_blist_get_convs s gtkblist) = Some (c, cw)"
    and distinct: "cw_notebook cw \<noteq> bl_notebook gtkblist"
    and packed: "parent s (cw_notebook cw) = Some pc" "parent s (bl_notebook gtkblist) = Some pb"
    and live: "cw_notebook cw < next_obj s" "bl_notebook gtkblist < next_obj s"
              "pc < next_obj s" "pb < next_obj s"
    and old: "\<forall>op. pwm_fetch s gtkblist ''paned'' = Some (Widget op) \<longrightarrow>
                op \<noteq> cw_notebook cw \<and> op \<noteq> bl_notebook gtkblist
                \<and> (\<forall>q. parent s op = Some q \<longrightarrow> q < next_obj s)"
  shows "\<exists>s' p. pwm_create_paned_layout s gtkblist side = Some s'
           \<and> pwm_fetch s' gtkblist ''paned'' = Some (Widget p)
           \<and> (gtk_paned_get_child1 s' p = Some (cw_notebook cw))
               = (\<exists>cs. side = Some (CHR ''t'' # cs) \<or> side = Some (CHR ''l'' # cs))
           \<and> (gtk_paned_get_child1 s' p = Some (bl_notebook gtkblist))
               = (\<nexists>cs. side = Some (CHR ''t'' # cs) \<or> side = Some (CHR ''l'' # cs))
           \<and> (gtk_paned_get_child2 s' p = Some (bl_notebook gtkblist))
               = (\<exists>cs. side = Some (CHR ''t'' # cs) \<or> side = Some (CHR ''l'' # cs))
           \<and> (gtk_paned_get_child2 s' p = Some (cw_notebook cw))
               = (\<nexists>cs. side = Some (CHR ''t'' # cs) \<or> side = Some (CHR ''l'' # cs))"
proof -
  define p where "p = next_obj s"
  define s1 where "s1 = snd (layout_new_paned s gtkblist side)"
  define cnb where "cnb = cw_notebook cw"
  define bnb where "bnb = bl_notebook gtkblist"
  define first where
    "first = (\<exists>cs. side = Some (CHR ''t'' # cs) \<or> side = Some (CHR ''l'' # cs))"
  obtain s' where s': "pwm_create_paned_layout s gtkblist side = Some s'"
    using create_paned_layout_eq [OF merged] by blast
  have slot: "pwm_fetch s' gtkblist ''paned'' = Some (Widget p)"
    using create_paned_layout_data [OF merged s' live(2)] by (simp add: slot_defs p_def)
  have par: "parent s1 cnb \<noteq> None" "parent s1 cnb \<noteq> Some p"
            "parent s1 bnb \<noteq> None" "parent s1 bnb \<noteq> Some p"
    using packed live by (auto simp: s1_def p_def cnb_def bnb_def)
  have new: "GTK_IS_PANED s1 p" "paned_child1 s1 p = None" "paned_child2 s1 p = None"
            "parent s1 p = None"
    by (simp_all add: s1_def p_def GTK_IS_PANED_def)
  have ne: "cnb \<noteq> bnb" "cnb \<noteq> p" "bnb \<noteq> p"
           "cnb \<noteq> next_obj s1" "bnb \<noteq> next_obj s1" "p \<noteq> next_obj s1"
    using distinct live by (simp_all add: s1_def p_def cnb_def bnb_def)
  have old1: "\<forall>op. pwm_fetch s gtkblist ''paned'' = Some (Widget op)
                \<longrightarrow> op \<noteq> cnb \<and> op \<noteq> bnb \<and> parent s1 op \<noteq> Some p"
    using old by (auto simp: s1_def p_def cnb_def bnb_def)
  have pristine:
    "paned_child1 (layout_pristine s1 gtkblist cw p side) p = Some (if first then cnb else bnb)"
    "paned_child2 (layout_pristine s1 gtkblist cw p side) p = Some (if first then bnb else cnb)"
    using layout_pristine_panes [OF par new ne, of cw gtkblist side]
    unfolding side_first first_def by (simp_all add: cnb_def bnb_def)
  have replace:
    "paned_child1 (layout_replace s1 gtkblist cw p (pwm_fetch s gtkblist ''paned'') side) p
       = Some (if first then cnb else bnb)"
    "paned_child2 (layout_replace s1 gtkblist cw p (pwm_fetch s gtkblist ''paned'') side) p
       = Some (if first then bnb else cnb)"
    using layout_replace_panes [OF par new ne(1,2,3) old1, of cw gtkblist side]
    unfolding side_first first_def by (simp_all add: cnb_def bnb_def)
  have "paned_child1 s' p = Some (if first then cnb else bnb)
        \<and> paned_child2 s' p = Some (if first then bnb else cnb)"
    using s' pristine replace unfolding create_paned_layout_eq [OF merged] s1_def p_def
    by (cases "pwm_fetch s gtkblist ''paned'' = None"; auto)
  then show ?thesis
    using s' slot ne(1)
    unfolding first_def cnb_def bnb_def gtk_paned_get_child1_def gtk_paned_get_child2_def
    by (intro exI [of _ s'] exI [of _ p]) auto
qed

theorem conversations_first_from_first_char_witness:
  "(\<exists>s' p. pwm_create_paned_layout tied0 blist0 (Some ''top'') = Some s'
       \<and> pwm_fetch tied0 blist0 ''paned'' = None
       \<and> pwm_fetch s' blist0 ''paned'' = Some (Widget p)
       \<and> gtk_paned_get_child1 s' p = Some 9 \<and> gtk_paned_get_child2 s' p = Some 3)
   \<and> (\<exists>s' p. pwm_create_paned_layout tied0 blist0 (Some ''right'') = Some s'
       \<and> pwm_fetch s' blist0 ''paned'' = Some (Widget p)
       \<and> gtk_paned_get_child1 s' p = Some 3 \<and> gtk_paned_get_child2 s' p = Some 9)
   \<and> (\<exists>s' p. pwm_create_paned_layout merged0 blist0 (Some ''left'') = Some s'
       \<and> pwm_fetch merged0 blist0 ''paned'' = Some (Widget 13)
       \<and> pwm_fetch s' blist0 ''paned'' = Some (Widget p)
       \<and> gtk_paned_get_child1 s' p = Some 9 \<and> gtk_paned_get_child2 s' p = Some 3)
   \<and> (\<exists>s' p. pwm_create_paned_layout merged0 blist0 None = Some s'
       \<and> pwm_fetch s' blist0 ''paned'' = Some (Widget p)
       \<and> gtk_paned_get_child1 s' p = Some 3 \<and> gtk_paned_get_child2 s' p = Some 9)"
proof -
  let ?cw0 = "\<lparr>cw_window = Some 6, cw_notebook = 9, cw_menubar = 8\<rparr>"
  let ?cw1 = "\<lparr>cw_window = Some 0, cw_notebook = 9, cw_menubar = 8\<rparr>"
  have t: "conv_window_of tied0 (pwm_blist_get_convs tied0 blist0) = Some (0, ?cw0)"
    "cw_notebook ?cw0 \<noteq> bl_notebook blist0"
    "parent tied0 (cw_notebook ?cw0) = Some 7" "parent tied0 (bl_notebook blist0) = Some 1"
    "cw_notebook ?cw0 < next_obj tied0" "bl_notebook blist0 < next_obj tied0"
    "7 < next_obj tied0" "1 < next_obj tied0"
    "\<forall>op. pwm_fetch tied0 blist0 ''paned'' = Some (Widget op) \<longrightarrow>
        op \<noteq> cw_notebook ?cw0 \<and> op \<noteq> bl_notebook blist0
        \<and> (\<forall>q. parent tied0 op = Some q \<longrightarrow> q < next_obj tied0)"
    "pwm_fetch tied0 blist0 ''paned'' = None"
    by (simp_all add: conv_window_of_def slot_defs tied0_def blist0_def)
  have m: "conv_window_of merged0 (pwm_blist_get_convs merged0 blist0) = Some (0, ?cw1)"
    "cw_notebook ?cw1 \<noteq> bl_notebook blist0"
    "parent merged0 (cw_notebook ?cw1) = Some 13" "parent merged0 (bl_notebook blist0) = Some 13"
    "cw_notebook ?cw1 < next_obj merged0" "bl_notebook blist0 < next_obj merged0"
    "13 < next_obj merged0" "13 < next_obj merged0"
    "\<forall>op. pwm_fetch merged0 blist0 ''paned'' = Some (Widget op) \<longrightarrow>
        op \<noteq> cw_notebook ?cw1 \<and> op \<noteq> bl_notebook blist0
        \<and> (\<forall>q. parent merged0 op = Some q \<longrightarrow> q < next_obj merged0)"
    "pwm_fetch merged0 blist0 ''paned'' = Some (Widget 13)"
    by (simp_all add: conv_window_of_def slot_defs merged0_def blist0_def)
  note a = conversations_first_from_first_char [OF t(1-9)]
  note b = conversations_first_from_first_char [OF m(1-9)]
  have n: "bl_notebook blist0 = 3" by (simp add: blist0_def)
  show ?thesis
    using t(10) m(10) a [of "Some ''top''"] a [of "Some ''right''"]
      b [of "Some ''left''"] b [of None]
    unfolding n by simp blast
qed

subsection \<open>Signal emission\<close>

lemma run_notify_position_filter:
  "run_notify_position s p hs = run_notify_position s p [h \<leftarrow> hs. handler_object h = p]"
proof (induction hs arbitrary: s)
  case Nil
  show ?case by simp
next
  case (Cons h hs)
  obtain obj sig cb data where h: "h = Handler obj sig cb data" by (cases h)
  show ?case
    unfolding h using Cons.IH
    by (auto split: option.splits gpointer.splits)
qed

lemma run_handlers_filter:
  "run_handlers s obj sig hs = run_handlers s obj sig [h \<leftarrow> hs. handler_object h = obj]"
proof (induction hs arbitrary: s)
  case Nil
  show ?case by simp
next
  case (Cons h hs)
  obtain obj' sig' cb data where h: "h = Handler obj' sig' cb data" by (cases h)
  show ?case
    unfolding h using Cons.IH
    by (auto split: option.splits gpointer.splits GCallback.splits)
qed

lemma g_signal_emit_single:
  assumes "[h \<leftarrow> handlers s. handler_object h = obj] = [Handler obj sig' cb data]"
  shows "g_signal_emit s obj sig = run_handlers s obj sig [Handler obj sig' cb data]"
  unfolding g_signal_emit_def using run_handlers_filter [of s obj sig "handlers s"] assms by simp

lemma single_handler_connected:
  assumes "[h \<leftarrow> handlers s. handler_object h = obj] = [k]"
  shows "k \<in> set (handlers s)"
proof -
  have "k \<in> set [h \<leftarrow> handlers s. handler_object h = obj]" using assms by simp
  then show ?thesis by simp
qed

lemma notify_max_position_cb_fields:
  "handlers (notify_max_position_cb s p gtkblist) =
     filter (\<lambda>h. \<not> matches_any_signal p CB_notify_max_position (Some (Blist gtkblist)) h)
       (handlers s)
     @ [Handler p ''notify::position'' CB_notify_position (Some (Blist gtkblist))]"
proof -
  have "handlers (gtk_paned_set_position s p v) = handlers s" for v
    using gtk_paned_set_position_frame [of s p v] by auto
  then show ?thesis
    by (simp add: notify_max_position_cb_def Let_def g_object_connect_def g_object_disconnect_def)
qed

lemma notify_max_position_cb_prefs:
  assumes "[h \<leftarrow> handlers s. handler_object h = p]
             = [Handler p ''notify::max-position'' CB_notify_max_position d]"
  shows "prefs_int (notify_max_position_cb s p gtkblist) = prefs_int s"
proof -
  have "run_notify_position t p (handlers s) = t" for t
    using run_notify_position_filter [of t p "handlers s"] assms by simp
  then have "prefs_int (gtk_paned_set_position s p v) = prefs_int s" for v
    by (simp add: gtk_paned_set_position_def g_object_notify_position_def)
  then show ?thesis
    by (simp add: notify_max_position_cb_def Let_def g_object_connect_def g_object_disconnect_def)
qed

lemma filter_object_after_disconnect:
  assumes "[h \<leftarrow> hs. handler_object h = p] = [Handler p sig cb d]"
  shows "[h \<leftarrow> filter (\<lambda>h. \<not> matches_any_signal p cb d h) hs. handler_object h = p] = []"
proof -
  have "[h \<leftarrow> filter (\<lambda>h. \<not> matches_any_signal p cb d h) hs. handler_object h = p]
        = filter (\<lambda>h. \<not> matches_any_signal p cb d h) [h \<leftarrow> hs. handler_object h = p]"
    by (simp add: conj_commute)
  then show ?thesis unfolding assms by simp
qed

text \<open>
  C10. The initial-size callback runs once. \<open>pwm_create_paned_layout\<close> leaves the new
  paned with exactly one connection, \<open>notify_max_position_cb\<close> on
  \<open>notify::max-position\<close>. In whatever state a paned has that one connection, the
  first emission of the signal runs the callback: the stored size preference is applied
  (it becomes the slider position, or the position becomes unset when the size computed
  from it is negative), no preference is written, and afterwards the only connection of
  the paned is \<open>notify_position_cb\<close> on \<open>notify::position\<close>. In whatever state that is
  the only connection, an emission of \<open>notify::max-position\<close> changes nothing, so the
  preference is not applied again, and an emission of \<open>notify::position\<close> writes the
  size computed from the slider position under the key of the orientation, changes
  nothing else, and leaves the connection in place for the next change.
\<close>

theorem initial_size_callback_runs_once:
  assumes merged: "conv_window_of s (pwm_blist_get_convs s gtkblist) = Some (c, cw)"
    and live: "bl_notebook gtkblist < next_obj s"
  shows "(\<exists>s1 p.
            pwm_create_paned_layout s gtkblist side = Some s1
          \<and> pwm_fetch s1 gtkblist ''paned'' = Some (Widget p)
          \<and> [h \<leftarrow> handlers s1. handler_object h = p]
              = [Handler p ''notify::max-position'' CB_notify_max_position
                   (Some (Blist gtkblist))])
       \<and> (\<forall>t q. [h \<leftarrow> handlers t. handler_object h = q]
                    = [Handler q ''notify::max-position'' CB_notify_max_position
                         (Some (Blist gtkblist))]
            \<longrightarrow> g_signal_emit t q ''notify::max-position'' = notify_max_position_cb t q gtkblist
              \<and> gtk_paned_get_position (g_signal_emit t q ''notify::max-position'') q
                  = (let size = (if gtk_paned_get_child1 t q = Some (bl_notebook gtkblist)
                                 then purple_prefs_get_int t
                                        (if GTK_IS_VPANED t q then PREF_HEIGHT else PREF_WIDTH)
                                 else g_object_get_max_position t q
                                      - purple_prefs_get_int t
                                          (if GTK_IS_VPANED t q then PREF_HEIGHT else PREF_WIDTH))
                     in if 0 \<le> sint size then size else gtk_paned_get_position t q)
              \<and> position_set (g_signal_emit t q ''notify::max-position'') q
                  = (0 \<le> sint (if gtk_paned_get_child1 t q = Some (bl_notebook gtkblist)
                                 then purple_prefs_get_int t
                                        (if GTK_IS_VPANED t q then PREF_HEIGHT else PREF_WIDTH)
                                 else g_object_get_max_position t q
                                      - purple_prefs_get_int t
                                          (if GTK_IS_VPANED t q then PREF_HEIGHT else PREF_WIDTH)))
              \<and> prefs_int (g_signal_emit t q ''notify::max-position'') = prefs_int t
              \<and> [h \<leftarrow> handlers (g_signal_emit t q ''notify::max-position''). handler_object h = q]
                  = [Handler q ''notify::position'' CB_notify_position (Some (Blist gtkblist))])
       \<and> (\<forall>t q. [h \<leftarrow> handlers t. handler_object h = q]
                    = [Handler q ''notify::position'' CB_notify_position (Some (Blist gtkblist))]
            \<longrightarrow> g_signal_emit t q ''notify::max-position'' = t
              \<and> prefs_int (g_signal_emit t q ''notify::position'')
                    (if GTK_IS_VPANED t q then PREF_HEIGHT else PREF_WIDTH)
                  = (if gtk_paned_get_child1 t q = Some (bl_notebook gtkblist)
                     then gtk_paned_get_position t q
                     else g_object_get_max_position t q - gtk_paned_get_position t q)
              \<and> prefs_int (g_signal_emit t q ''notify::position'')
                    (if GTK_IS_VPANED t q then PREF_WIDTH else PREF_HEIGHT)
                  = prefs_int t (if GTK_IS_VPANED t q then PREF_WIDTH else PREF_HEIGHT)
              \<and> g_signal_emit t q ''notify::position''
                  = t\<lparr>prefs_int := prefs_int (g_signal_emit t q ''notify::position'')\<rparr>)"
proof -
  define p where "p = next_obj s"
  obtain s1 where s1: "pwm_create_paned_layout s gtkblist side = Some s1"
    using create_paned_layout_eq [OF merged] by blast
  have slot: "pwm_fetch s1 gtkblist ''paned'' = Some (Widget p)"
    using create_paned_layout_data [OF merged s1 live] by (simp add: slot_defs p_def)
  have only: "[h \<leftarrow> handlers s1. handler_object h = p]
                = [Handler p ''notify::max-position'' CB_notify_max_position
                     (Some (Blist gtkblist))]"
    using create_paned_layout_handlers [OF merged s1] by (simp add: p_def)
  have first:
    "g_signal_emit t q ''notify::max-position'' = notify_max_position_cb t q gtkblist
     \<and> gtk_paned_get_position (g_signal_emit t q ''notify::max-position'') q
         = (let size = (if gtk_paned_get_child1 t q = Some (bl_notebook gtkblist)
                        then purple_prefs_get_int t
                               (if GTK_IS_VPANED t q then PREF_HEIGHT else PREF_WIDTH)
                        else g_object_get_max_position t q
                             - purple_prefs_get_int t
                                 (if GTK_IS_VPANED t q then PREF_HEIGHT else PREF_WIDTH))
            in if 0 \<le> sint size then size else gtk_paned_get_position t q)
     \<and> position_set (g_signal_emit t q ''notify::max-position'') q
         = (0 \<le> sint (if gtk_paned_get_child1 t q = Some (bl_notebook gtkblist)
                        then purple_prefs_get_int t
                               (if GTK_IS_VPANED t q then PREF_HEIGHT else PREF_WIDTH)
                        else g_object_get_max_position t q
                             - purple_prefs_get_int t
                                 (if GTK_IS_VPANED t q then PREF_HEIGHT else PREF_WIDTH)))
     \<and> prefs_int (g_signal_emit t q ''notify::max-position'') = prefs_int t
     \<and> [h \<leftarrow> handlers (g_signal_emit t q ''notify::max-position''). handler_object h = q]
         = [Handler q ''notify::position'' CB_notify_position (Some (Blist gtkblist))]"
    if t: "[h \<leftarrow> handlers t. handler_object h = q]
             = [Handler q ''notify::max-position'' CB_notify_max_position
                  (Some (Blist gtkblist))]" for t q
  proof -
    have emit: "g_signal_emit t q ''notify::max-position'' = notify_max_position_cb t q gtkblist"
      unfolding g_signal_emit_single [OF t]
      using single_handler_connected [OF t] by simp
    have after: "[h \<leftarrow> handlers (notify_max_position_cb t q gtkblist). handler_object h = q]
                   = [Handler q ''notify::position'' CB_notify_position (Some (Blist gtkblist))]"
      unfolding notify_max_position_cb_fields
      using filter_object_after_disconnect [OF t] by simp
    show ?thesis
      unfolding emit
      using after notify_max_position_cb_prefs [OF t]
      by (simp add: notify_max_position_cb_position gtk_paned_get_position_def
          gtk_paned_get_child1_def purple_prefs_get_int_def GTK_IS_VPANED_def
          g_object_get_max_position_def Let_def del: filter.simps)
  qed
  have later:
    "g_signal_emit t q ''notify::max-position'' = t
     \<and> prefs_int (g_signal_emit t q ''notify::position'')
           (if GTK_IS_VPANED t q then PREF_HEIGHT else PREF_WIDTH)
         = (if gtk_paned_get_child1 t q = Some (bl_notebook gtkblist)
            then gtk_paned_get_position t q
            else g_object_get_max_position t q - gtk_paned_get_position t q)
     \<and> prefs_int (g_signal_emit t q ''notify::position'')
           (if GTK_IS_VPANED t q then PREF_WIDTH else PREF_HEIGHT)
         = prefs_int t (if GTK_IS_VPANED t q then PREF_WIDTH else PREF_HEIGHT)
     \<and> g_signal_emit t q ''notify::position''
         = t\<lparr>prefs_int := prefs_int (g_signal_emit t q ''notify::position'')\<rparr>"
    if t: "[h \<leftarrow> handlers t. handler_object h = q]
             = [Handler q ''notify::position'' CB_notify_position (Some (Blist gtkblist))]"
    for t q
  proof -
    have a: "g_signal_emit t q ''notify::max-position'' = t"
      unfolding g_signal_emit_single [OF t] by simp
    have b: "g_signal_emit t q ''notify::position'' = notify_position_cb t q gtkblist"
      unfolding g_signal_emit_single [OF t] using single_handler_connected [OF t] by simp
    show ?thesis
      unfolding b
      using a
      by (simp add: notify_position_cb_eq GTK_IS_VPANED_def gtk_paned_get_child1_def
          gtk_paned_get_position_def g_object_get_max_position_def)
  qed
  have "\<exists>s1 p. pwm_create_paned_layout s gtkblist side = Some s1
          \<and> pwm_fetch s1 gtkblist ''paned'' = Some (Widget p)
          \<and> [h \<leftarrow> handlers s1. handler_object h = p]
              = [Handler p ''notify::max-position'' CB_notify_max_position
                   (Some (Blist gtkblist))]"
    using s1 slot only by blast
  then show ?thesis
    using first later by (intro conjI allI impI) blast+
qed

theorem initial_size_callback_runs_once_witness:
  "conv_window_of merged0 (pwm_blist_get_convs merged0 blist0)
     = Some (0, \<lparr>cw_window = Some 0, cw_notebook = 9, cw_menubar = 8\<rparr>)
   \<and> bl_notebook blist0 < next_obj merged0
   \<and> (\<exists>s1 p.
         pwm_create_paned_layout merged0 blist0 (Some ''left'') = Some s1
       \<and> [h \<leftarrow> handlers s1. handler_object h = p]
           = [Handler p ''notify::max-position'' CB_notify_max_position (Some (Blist blist0))])
   \<and> [h \<leftarrow> handlers allocated0. handler_object h = 13]
       = [Handler 13 ''notify::max-position'' CB_notify_max_position (Some (Blist blist0))]
   \<and> gtk_paned_get_position allocated0 13 = 0
   \<and> gtk_paned_get_position (g_signal_emit allocated0 13 ''notify::max-position'') 13 = 300
   \<and> position_set (g_signal_emit allocated0 13 ''notify::max-position'') 13
   \<and> prefs_int (g_signal_emit allocated0 13 ''notify::max-position'') = prefs_int allocated0
   \<and> [h \<leftarrow> handlers dragged0. handler_object h = 13]
       = [Handler 13 ''notify::position'' CB_notify_position (Some (Blist blist0))]
   \<and> gtk_paned_get_position dragged0 13 = 400
   \<and> g_signal_emit dragged0 13 ''notify::max-position'' = dragged0
   \<and> prefs_int dragged0 PREF_WIDTH = 300
   \<and> prefs_int (g_signal_emit dragged0 13 ''notify::position'') PREF_WIDTH = 400
   \<and> prefs_int (g_signal_emit dragged0 13 ''notify::position'') PREF_HEIGHT = 200"
proof -
  let ?max = "Handler 13 ''notify::max-position'' CB_notify_max_position (Some (Blist blist0))"
  let ?pos = "Handler 13 ''notify::position'' CB_notify_position (Some (Blist blist0))"
  let ?u = "g_signal_emit allocated0 13 ''notify::max-position''"
  have h: "conv_window_of merged0 (pwm_blist_get_convs merged0 blist0)
             = Some (0, \<lparr>cw_window = Some 0, cw_notebook = 9, cw_menubar = 8\<rparr>)"
    by (simp add: conv_window_of_def slot_defs merged0_def blist0_def)
  have l: "bl_notebook blist0 < next_obj merged0"
    by (simp add: merged0_def blist0_def)
  note t = initial_size_callback_runs_once [OF h l, of "Some ''left''"]
  have create: "\<exists>s1 p.
         pwm_create_paned_layout merged0 blist0 (Some ''left'') = Some s1
       \<and> [h \<leftarrow> handlers s1. handler_object h = p]
           = [Handler p ''notify::max-position'' CB_notify_max_position (Some (Blist blist0))]"
    using t by blast
  have a0: "[h \<leftarrow> handlers allocated0. handler_object h = 13] = [?max]"
    by (simp add: allocated0_def merged0_def)
  have f0: "gtk_paned_get_position allocated0 13 = 0"
    "gtk_paned_get_child1 allocated0 13 = Some (bl_notebook blist0)"
    "GTK_IS_VPANED allocated0 13 = False"
    "purple_prefs_get_int allocated0 PREF_WIDTH = 300"
    "prefs_int allocated0 PREF_HEIGHT = 200"
    by (simp_all add: allocated0_def merged0_def blist0_def gtk_paned_get_position_def
        gtk_paned_get_child1_def GTK_IS_VPANED_def purple_prefs_get_int_def)
  note x = t [THEN conjunct2, THEN conjunct1, rule_format, OF a0]
  have first: "?u = notify_max_position_cb allocated0 13 blist0"
    "gtk_paned_get_position ?u 13 = 300" "position_set ?u 13"
    "prefs_int ?u = prefs_int allocated0"
    "[h \<leftarrow> handlers ?u. handler_object h = 13] = [?pos]"
  proof -
    show "?u = notify_max_position_cb allocated0 13 blist0"
      by (rule x [THEN conjunct1])
    show "gtk_paned_get_position ?u 13 = 300"
      using x [THEN conjunct2, THEN conjunct1] f0 by (simp add: Let_def)
    show "position_set ?u 13"
      using x [THEN conjunct2, THEN conjunct2, THEN conjunct1] f0 by simp
    show "prefs_int ?u = prefs_int allocated0"
      by (rule x [THEN conjunct2, THEN conjunct2, THEN conjunct2, THEN conjunct1])
    show "[h \<leftarrow> handlers ?u. handler_object h = 13] = [?pos]"
      by (rule x [THEN conjunct2, THEN conjunct2, THEN conjunct2, THEN conjunct2])
  qed
  obtain f b g k where u: "?u = allocated0\<lparr>position := f, position_set := b, prefs_int := g,
                                            handlers := k\<rparr>"
    using notify_max_position_cb_changes [of allocated0 13 blist0] first(1) by auto
  have d0: "[h \<leftarrow> handlers dragged0. handler_object h = 13] = [?pos]"
    using first(5) by (simp add: dragged0_def del: filter.simps)
  have fd: "gtk_paned_get_position dragged0 13 = 400"
    "gtk_paned_get_child1 dragged0 13 = Some (bl_notebook blist0)"
    "GTK_IS_VPANED dragged0 13 = False"
    "prefs_int dragged0 PREF_WIDTH = 300"
    "prefs_int dragged0 PREF_HEIGHT = 200"
    using f0 first(4)
    by (simp_all add: dragged0_def u gtk_paned_get_position_def gtk_paned_get_child1_def
        GTK_IS_VPANED_def purple_prefs_get_int_def)
  note y = t [THEN conjunct2, THEN conjunct2, rule_format, OF d0]
  have later: "g_signal_emit dragged0 13 ''notify::max-position'' = dragged0"
    "prefs_int (g_signal_emit dragged0 13 ''notify::position'') PREF_WIDTH = 400"
    "prefs_int (g_signal_emit dragged0 13 ''notify::position'') PREF_HEIGHT = 200"
  proof -
    show "g_signal_emit dragged0 13 ''notify::max-position'' = dragged0"
      by (rule y [THEN conjunct1])
    show "prefs_int (g_signal_emit dragged0 13 ''notify::position'') PREF_WIDTH = 400"
      using y [THEN conjunct2, THEN conjunct1] fd by simp
    show "prefs_int (g_signal_emit dragged0 13 ''notify::position'') PREF_HEIGHT = 200"
      using y [THEN conjunct2, THEN conjunct2, THEN conjunct1] fd by simp
  qed
  show ?thesis
    using h l create a0 f0(1) first(2,3,4) d0 fd(1,4) later by simp
qed

subsection \<open>The merge\<close>

lemma new_menu_items_frame [simp]:
  "windows (new_menu_items s menubar accel layout) = windows s"
  "next_win (new_menu_items s menubar accel layout) = next_win s"
  "imhtml_skipped (new_menu_items s menubar accel layout) = imhtml_skipped s"
  "prefs_string (new_menu_items s menubar accel layout) = prefs_string s"
  by (induction layout arbitrary: s;
      simp add: Let_def case_prod_beta gtk_widget_show_def)+

lemma new_menu_items_next_obj:
  "next_obj s \<le> next_obj (new_menu_items s menubar accel layout)"
proof (induction layout arbitrary: s)
  case Nil
  show ?case by simp
next
  case (Cons has_submenu rest)
  show ?case
    using Cons.IH [of "gtk_widget_show
                        (gtk_container_add (snd (g_object_new s GtkMenuItem)) menubar (next_obj s))
                        (next_obj s)"]
      Cons.IH [of "(snd (g_object_new
                      (gtk_widget_show
                        (gtk_container_add (snd (g_object_new s GtkMenuItem)) menubar (next_obj s))
                        (next_obj s)) GtkMenu))
                   \<lparr>submenu := (submenu (snd (g_object_new
                      (gtk_widget_show
                        (gtk_container_add (snd (g_object_new s GtkMenuItem)) menubar (next_obj s))
                        (next_obj s)) GtkMenu)))(next_obj s \<mapsto> Suc (next_obj s)),
                     menu_accel_group := (menu_accel_group (snd (g_object_new
                      (gtk_widget_show
                        (gtk_container_add (snd (g_object_new s GtkMenuItem)) menubar (next_obj s))
                        (next_obj s)) GtkMenu)))(Suc (next_obj s) \<mapsto> accel)\<rparr>"]
    by (cases has_submenu) (simp_all add: Let_def case_prod_beta gtk_widget_show_def)
qed

lemma pidgin_conv_window_new_fst [simp]: "fst (pidgin_conv_window_new s) = next_win s"
  by (simp add: pidgin_conv_window_new_def Let_def case_prod_beta)

lemma pidgin_conv_window_new_frame [simp]:
  "imhtml_skipped (snd (pidgin_conv_window_new s)) = imhtml_skipped s"
  "prefs_string (snd (pidgin_conv_window_new s)) = prefs_string s"
  "windows (snd (pidgin_conv_window_new s)) =
     (windows s)(next_win s :=
        Some \<lparr>cw_window = Some (next_obj s), cw_notebook = Suc (Suc (Suc (next_obj s))),
              cw_menubar = Suc (Suc (next_obj s))\<rparr>)"
  by (simp_all add: pidgin_conv_window_new_def Let_def case_prod_beta)

lemma pidgin_conv_window_new_next_obj:
  "Suc (Suc (Suc (Suc (next_obj s)))) \<le> next_obj (snd (pidgin_conv_window_new s))"
  using new_menu_items_next_obj
    [of "gtk_container_add
           (gtk_container_add
              (gtk_container_add
                 (snd (g_object_new (snd (g_object_new (snd (g_object_new
                    (snd (g_object_new s GtkWindow)) GtkBox)) GtkMenuBar)) GtkNotebook))
                 (next_obj s) (Suc (next_obj s)))
              (Suc (next_obj s)) (Suc (Suc (next_obj s))))
           (Suc (next_obj s)) (Suc (Suc (Suc (next_obj s))))"
        "Suc (Suc (next_obj s))" "next_obj s" "conv_menu_layout s"]
  by (simp add: pidgin_conv_window_new_def Let_def case_prod_beta)

lemma merge_migrate_menus_frame [simp]:
  "windows (merge_migrate_menus s gtkblist cw blist_menu) = windows s"
  "imhtml_skipped (merge_migrate_menus s gtkblist cw blist_menu) = imhtml_skipped s"
  "next_obj (merge_migrate_menus s gtkblist cw blist_menu) = next_obj s"
  "object_data (merge_migrate_menus s gtkblist cw blist_menu) obj key =
     (if obj = bl_notebook gtkblist \<and> key = ''pwm_conv_menus''
      then glist (gtk_container_get_children s (cw_menubar cw))
      else object_data s obj key)"
  by (simp_all add: merge_migrate_menus_def Let_def pwm_store_def)

lemma merge_finish_frame [simp]:
  "windows (merge_finish s gtkblist c cw) =
     (windows s)(c := Some (cw\<lparr>cw_window := Some (bl_window gtkblist)\<rparr>))"
  "imhtml_skipped (merge_finish s gtkblist c cw) =
     {(GDK_KP_Page_Down, GDK_CONTROL_MASK), (GDK_KP_Page_Up, GDK_CONTROL_MASK),
      (GDK_Page_Down, GDK_CONTROL_MASK), (GDK_Page_Up, GDK_CONTROL_MASK),
      (GDK_Down, GDK_CONTROL_MASK), (GDK_Up, GDK_CONTROL_MASK)} \<union> imhtml_skipped s"
  "next_obj (merge_finish s gtkblist c cw) = next_obj s"
  "object_data (merge_finish s gtkblist c cw) obj key =
     (if obj = bl_notebook gtkblist \<and> key = ''pwm_conv_window''
      then map_option Widget (cw_window cw)
      else object_data s obj key)"
  by (simp_all add: merge_finish_def Let_def pwm_store_def update_defs
      pwm_set_conv_menus_visible_eq)

lemma create_paned_layout_the:
  "conv_window_of s (pwm_blist_get_convs s gtkblist) \<noteq> None \<Longrightarrow>
   pwm_create_paned_layout s gtkblist side \<noteq> None"
  using create_paned_layout_eq [of s gtkblist] by (cases "conv_window_of s (pwm_blist_get_convs s gtkblist)") auto

lemma merge_result:
  assumes unmerged: "pwm_blist_get_convs s gtkblist = None"
    and live: "bl_notebook gtkblist < next_obj s"
  shows "\<exists>s'. pwm_merge_conversation s gtkblist = Some s'
           \<and> imhtml_skipped s' =
               {(GDK_KP_Page_Down, GDK_CONTROL_MASK), (GDK_KP_Page_Up, GDK_CONTROL_MASK),
                (GDK_Page_Down, GDK_CONTROL_MASK), (GDK_Page_Up, GDK_CONTROL_MASK),
                (GDK_Down, GDK_CONTROL_MASK), (GDK_Up, GDK_CONTROL_MASK)} \<union> imhtml_skipped s
           \<and> windows s' =
               (windows s)(next_win s :=
                  Some \<lparr>cw_window = Some (bl_window gtkblist),
                        cw_notebook = Suc (Suc (Suc (next_obj s))),
                        cw_menubar = Suc (Suc (next_obj s))\<rparr>)
           \<and> object_data s' (bl_notebook gtkblist) ''pwm_convs'' = Some (ConvWin (next_win s))
           \<and> object_data s' (Suc (Suc (Suc (next_obj s)))) ''pwm_blist'' = Some (Blist gtkblist)
           \<and> Suc (Suc (Suc (Suc (next_obj s)))) \<le> next_obj s'"
proof -
  define c where "c = next_win s"
  define nb where "nb = Suc (Suc (Suc (next_obj s)))"
  define cw where "cw = \<lparr>cw_window = Some (next_obj s), cw_notebook = nb,
                          cw_menubar = Suc (Suc (next_obj s))\<rparr>"
  define s1 where "s1 = snd (pidgin_conv_window_new s)"
  define s2 where "s2 = g_object_set_data s1 (bl_notebook gtkblist) ''pwm_convs''
                          (Some (ConvWin c))"
  define s3 where "s3 = g_object_set_data s2 nb ''pwm_blist'' (Some (Blist gtkblist))"
  define s4 where "s4 = pwm_store s3 gtkblist ''title''
                     (map_option Str (g_strdup (gtk_window_get_title s3 (bl_window gtkblist))))"
  have n1: "Suc nb \<le> next_obj s1"
    using pidgin_conv_window_new_next_obj [of s] by (simp add: s1_def nb_def)
  have n4: "next_obj s4 = next_obj s1"
    by (simp add: s4_def s3_def s2_def pwm_store_def)
  have w2: "windows s2 c = Some cw"
    by (simp add: s2_def s1_def c_def cw_def nb_def)
  have w4: "windows s4 = (windows s)(c := Some cw)"
    by (simp add: s4_def s3_def s2_def s1_def pwm_store_def c_def cw_def nb_def)
  have d4: "object_data s4 (bl_notebook gtkblist) ''pwm_convs'' = Some (ConvWin c)"
           "object_data s4 nb ''pwm_blist'' = Some (Blist gtkblist)"
    by (simp_all add: s4_def s3_def s2_def pwm_store_def)
  have m4: "conv_window_of s4 (pwm_blist_get_convs s4 gtkblist) = Some (c, cw)"
    by (simp add: conv_window_of_def slot_defs d4 w4)
  have i4: "imhtml_skipped s4 = imhtml_skipped s"
    by (simp add: s4_def s3_def s2_def s1_def pwm_store_def)
  obtain s5 where s5:
    "pwm_create_paned_layout s4 gtkblist (purple_prefs_get_string s4 PREF_SIDE) = Some s5"
    using create_paned_layout_eq [OF m4] by blast
  note f5 = create_paned_layout_frame [OF m4 s5]
  have l4: "bl_notebook gtkblist < next_obj s4" "nb < next_obj s4"
    using live n1 n4 pidgin_conv_window_new_next_obj [of s] by (simp_all add: s1_def nb_def)
  have d5: "object_data s5 (bl_notebook gtkblist) ''pwm_convs'' = Some (ConvWin c)"
           "object_data s5 nb ''pwm_blist'' = Some (Blist gtkblist)"
    using create_paned_layout_data [OF m4 s5 l4(1), of "''pwm_convs''"]
      create_paned_layout_data [OF m4 s5 l4(2), of "''pwm_blist''"] d4
    by simp_all
  define s' where "s' = merge_finish
      (merge_migrate_menus s5 gtkblist cw (gtk_widget_get_parent s (bl_menutray gtkblist)))
      gtkblist c cw"
  have e: "pwm_merge_conversation s gtkblist = Some s'"
  proof -
    have p: "pidgin_conv_window_new s = (c, s1)"
      by (simp add: c_def s1_def prod_eq_iff)
    have w1: "windows s1 c = Some cw"
      using w2 by (simp add: s2_def)
    show ?thesis
      by (simp add: pwm_merge_conversation_def unmerged p Let_def w1 cw_def s'_def
          s5 [unfolded s4_def s3_def s2_def])
  qed
  have "imhtml_skipped s' =
          {(GDK_KP_Page_Down, GDK_CONTROL_MASK), (GDK_KP_Page_Up, GDK_CONTROL_MASK),
           (GDK_Page_Down, GDK_CONTROL_MASK), (GDK_Page_Up, GDK_CONTROL_MASK),
           (GDK_Down, GDK_CONTROL_MASK), (GDK_Up, GDK_CONTROL_MASK)} \<union> imhtml_skipped s"
    by (simp add: s'_def f5 i4)
  moreover have "windows s' = (windows s)(c := Some (cw\<lparr>cw_window := Some (bl_window gtkblist)\<rparr>))"
    by (simp add: s'_def f5 w4)
  moreover have "object_data s' (bl_notebook gtkblist) ''pwm_convs'' = Some (ConvWin c)"
    by (simp add: s'_def d5)
  moreover have "object_data s' nb ''pwm_blist'' = Some (Blist gtkblist)"
    by (simp add: s'_def d5)
  moreover have "Suc nb \<le> next_obj s'"
    using f5(4) n1 n4 by (simp add: s'_def)
  ultimately show ?thesis
    using e by (simp add: c_def nb_def cw_def)
qed

lemma split_imhtml_skipped:
  assumes "conv_window_of s (pwm_blist_get_convs s gtkblist) = Some (c, cw)"
  shows "imhtml_skipped (the (pwm_split_conversation s gtkblist)) = imhtml_skipped s"
proof -
  have w: "conv_window_of (g_object_steal_data s (bl_notebook gtkblist) ''pwm_convs'')
             (pwm_blist_get_convs s gtkblist) = Some (c, cw)"
    using assms
    by (auto simp: conv_window_of_def split: option.splits gpointer.splits)
  show ?thesis
    unfolding pwm_split_conversation_def Let_def w
    by (simp add: slot_defs update_defs)
qed

lemma run_handlers_changes:
  "\<exists>f b g h. run_handlers s obj sig hs = s\<lparr>position := f, position_set := b, prefs_int := g, handlers := h\<rparr>"
proof (induction hs arbitrary: s)
  case Nil
  have "s = s\<lparr>position := position s, position_set := position_set s,
              prefs_int := prefs_int s, handlers := handlers s\<rparr>"
    by simp
  then show ?case by (metis run_handlers.simps(1))
next
  case (Cons k hs)
  obtain obj' sig' cb data where k: "k = Handler obj' sig' cb data" by (cases k)
  have "run_handlers s obj sig (k # hs) = run_handlers s obj sig hs
      \<or> (\<exists>bl. run_handlers s obj sig (k # hs)
                  = run_handlers (notify_position_cb s obj bl) obj sig hs)
      \<or> (\<exists>bl. run_handlers s obj sig (k # hs)
                  = run_handlers (notify_max_position_cb s obj bl) obj sig hs)"
    unfolding k
    by (simp split: option.splits gpointer.splits GCallback.splits) blast
  then consider
    (skip) "run_handlers s obj sig (k # hs) = run_handlers s obj sig hs"
  | (pos) bl where "run_handlers s obj sig (k # hs)
                      = run_handlers (notify_position_cb s obj bl) obj sig hs"
  | (max) bl where "run_handlers s obj sig (k # hs)
                      = run_handlers (notify_max_position_cb s obj bl) obj sig hs"
    by blast
  then show ?case
  proof cases
    case skip
    then show ?thesis using Cons.IH [of s] by simp
  next
    case (pos bl)
    obtain f b g h where "run_handlers (notify_position_cb s obj bl) obj sig hs
        = (notify_position_cb s obj bl)\<lparr>position := f, position_set := b, prefs_int := g, handlers := h\<rparr>"
      using Cons.IH by blast
    then have "run_handlers s obj sig (k # hs) = s\<lparr>position := f, position_set := b, prefs_int := g, handlers := h\<rparr>"
      using pos by (simp add: notify_position_cb_eq)
    then show ?thesis by blast
  next
    case (max bl)
    obtain f0 k0 g0 h0 where a: "notify_max_position_cb s obj bl
        = s\<lparr>position := f0, position_set := k0, prefs_int := g0, handlers := h0\<rparr>"
      using notify_max_position_cb_changes by blast
    obtain f b g h where "run_handlers (notify_max_position_cb s obj bl) obj sig hs
        = (notify_max_position_cb s obj bl)\<lparr>position := f, position_set := b, prefs_int := g, handlers := h\<rparr>"
      using Cons.IH by blast
    then have "run_handlers s obj sig (k # hs) = s\<lparr>position := f, position_set := b, prefs_int := g, handlers := h\<rparr>"
      using max unfolding a by simp
    then show ?thesis by blast
  qed
qed

lemma g_signal_emit_frame:
  "object_data (g_signal_emit s obj sig) = object_data s"
  "windows (g_signal_emit s obj sig) = windows s"
  "next_obj (g_signal_emit s obj sig) = next_obj s"
proof -
  obtain f b g h where "g_signal_emit s obj sig = s\<lparr>position := f, position_set := b, prefs_int := g, handlers := h\<rparr>"
    unfolding g_signal_emit_def using run_handlers_changes by blast
  then show "object_data (g_signal_emit s obj sig) = object_data s"
    "windows (g_signal_emit s obj sig) = windows s"
    "next_obj (g_signal_emit s obj sig) = next_obj s"
    by simp_all
qed

lemma merged_run_keeps_association:
  assumes "merged_run gtkblist s t"
    and "object_data s (bl_notebook gtkblist) ''pwm_convs'' = Some (ConvWin c)"
    and "\<exists>cw. windows s c = Some cw \<and> cw_notebook cw = nb"
    and "object_data s nb ''pwm_blist'' = Some (Blist gtkblist)"
    and "nb < next_obj s" "bl_notebook gtkblist < next_obj s"
  shows "object_data t (bl_notebook gtkblist) ''pwm_convs'' = Some (ConvWin c)
       \<and> (\<exists>cw. windows t c = Some cw \<and> cw_notebook cw = nb)
       \<and> object_data t nb ''pwm_blist'' = Some (Blist gtkblist)
       \<and> nb < next_obj t \<and> bl_notebook gtkblist < next_obj t"
  using assms
proof (induction rule: merged_run.induct)
  case (start s)
  then show ?case by simp
next
  case (layout s t side u)
  then have t: "object_data t (bl_notebook gtkblist) ''pwm_convs'' = Some (ConvWin c)"
    "\<exists>cw. windows t c = Some cw \<and> cw_notebook cw = nb"
    "object_data t nb ''pwm_blist'' = Some (Blist gtkblist)"
    "nb < next_obj t" "bl_notebook gtkblist < next_obj t"
    by simp_all
  obtain cw where cw: "windows t c = Some cw" "cw_notebook cw = nb" using t(2) by blast
  have m: "conv_window_of t (pwm_blist_get_convs t gtkblist) = Some (c, cw)"
    by (simp add: conv_window_of_def slot_defs t(1) cw)
  note f = create_paned_layout_frame [OF m layout.hyps(2)]
  show ?case
    using create_paned_layout_data [OF m layout.hyps(2) t(5), of "''pwm_convs''"]
      create_paned_layout_data [OF m layout.hyps(2) t(4), of "''pwm_blist''"]
      t f(1) f(4)
    by simp
next
  case (menus s t vis)
  then show ?case by (simp add: pwm_set_conv_menus_visible_eq)
next
  case (signal s t obj sig)
  then show ?case by (simp add: g_signal_emit_frame)
next
  case (merge_again s t u)
  then have "object_data t (bl_notebook gtkblist) ''pwm_convs'' = Some (ConvWin c)" by simp
  then have "pwm_merge_conversation t gtkblist = Some t"
    by (simp add: pwm_merge_conversation_def slot_defs)
  then show ?case using merge_again by simp
qed

text \<open>
  C8. The association made by the merge points both ways. After
  \<open>pwm_merge_conversation\<close> on an unmerged, live Buddy List, the conversation-window
  tag of the Buddy List notebook is the conversation window the host has just created,
  and the Buddy List tag of that window's notebook is the Buddy List. The same holds in
  every state reached from there by the other operations of merge.c (a new layout, a
  change of the menu visibility, an emission of a signal, a repeated merge), that is,
  until \<open>pwm_split_conversation\<close> runs.
\<close>

theorem association_points_both_ways:
  assumes unmerged: "pwm_blist_get_convs s gtkblist = None"
    and live: "bl_notebook gtkblist < next_obj s"
  shows "\<exists>s'. pwm_merge_conversation s gtkblist = Some s'
           \<and> (\<forall>t. merged_run gtkblist s' t \<longrightarrow>
                 (\<exists>cw. pwm_blist_get_convs t gtkblist
                          = Some (ConvWin (fst (pidgin_conv_window_new s)))
                      \<and> windows t (fst (pidgin_conv_window_new s)) = Some cw
                      \<and> g_object_get_data t (cw_notebook cw) ''pwm_blist''
                          = Some (Blist gtkblist)))"
proof -
  define c where "c = next_win s"
  define nb where "nb = Suc (Suc (Suc (next_obj s)))"
  obtain s' where s': "pwm_merge_conversation s gtkblist = Some s'"
    and w: "windows s' =
             (windows s)(c := Some \<lparr>cw_window = Some (bl_window gtkblist), cw_notebook = nb,
                                     cw_menubar = Suc (Suc (next_obj s))\<rparr>)"
    and d: "object_data s' (bl_notebook gtkblist) ''pwm_convs'' = Some (ConvWin c)"
           "object_data s' nb ''pwm_blist'' = Some (Blist gtkblist)"
    and n: "Suc nb \<le> next_obj s'"
    using merge_result [OF unmerged live] unfolding c_def nb_def by blast
  have i: "\<exists>cw. windows s' c = Some cw \<and> cw_notebook cw = nb" "nb < next_obj s'"
          "bl_notebook gtkblist < next_obj s'"
    using w n live by (simp_all add: nb_def)
  have "\<exists>cw. pwm_blist_get_convs t gtkblist = Some (ConvWin c)
             \<and> windows t c = Some cw
             \<and> g_object_get_data t (cw_notebook cw) ''pwm_blist'' = Some (Blist gtkblist)"
    if "merged_run gtkblist s' t" for t
    using merged_run_keeps_association [OF that d(1) i(1) d(2) i(2,3)]
    by (auto simp: slot_defs)
  then show ?thesis using s' by (simp add: c_def)
qed

theorem association_points_both_ways_witness:
  "pwm_blist_get_convs pristine blist0 = None
   \<and> bl_notebook blist0 < next_obj pristine
   \<and> (\<exists>s' cw cw'. pwm_merge_conversation pristine blist0 = Some s'
         \<and> pwm_blist_get_convs s' blist0 = Some (ConvWin 0)
         \<and> windows s' 0 = Some cw
         \<and> g_object_get_data s' (cw_notebook cw) ''pwm_blist'' = Some (Blist blist0)
         \<and> pwm_blist_get_convs (pwm_set_conv_menus_visible s' blist0 True) blist0
             = Some (ConvWin 0)
         \<and> windows (pwm_set_conv_menus_visible s' blist0 True) 0 = Some cw'
         \<and> g_object_get_data (pwm_set_conv_menus_visible s' blist0 True) (cw_notebook cw')
              ''pwm_blist'' = Some (Blist blist0))"
proof -
  have u: "pwm_blist_get_convs pristine blist0 = None"
    by (simp add: slot_defs pristine_def)
  have l: "bl_notebook blist0 < next_obj pristine"
    by (simp add: pristine_def blist0_def)
  have c: "fst (pidgin_conv_window_new pristine) = 0"
    by (simp add: pristine_def)
  obtain s' where s': "pwm_merge_conversation pristine blist0 = Some s'"
    and a: "\<forall>t. merged_run blist0 s' t \<longrightarrow>
              (\<exists>cw. pwm_blist_get_convs t blist0 = Some (ConvWin 0)
                   \<and> windows t 0 = Some cw
                   \<and> g_object_get_data t (cw_notebook cw) ''pwm_blist'' = Some (Blist blist0))"
    using association_points_both_ways [OF u l] unfolding c by blast
  have r0: "merged_run blist0 s' s'" by (rule merged_run.start)
  have r1: "merged_run blist0 s' (pwm_set_conv_menus_visible s' blist0 True)"
    by (rule merged_run.menus [OF merged_run.start])
  show ?thesis
    using u l s' a [rule_format, OF r0] a [rule_format, OF r1] by blast
qed

text \<open>
  C1. \<open>pwm_split_conversation\<close> does not undo the whole of
  \<open>pwm_merge_conversation\<close>. On the pristine Buddy List the merge and the split after
  it both return and the association is gone again, but the six key bindings the merge
  made the GtkIMHtml binding set skip are still skipped: merge.c has no call that takes
  a skipped entry back, as its own comment on those lines says.
\<close>

theorem split_after_merge_keeps_skipped_bindings:
  "\<exists>s1 s2. pwm_merge_conversation pristine blist0 = Some s1
         \<and> pwm_split_conversation s1 blist0 = Some s2
         \<and> pwm_blist_get_convs s2 blist0 = None
         \<and> imhtml_skipped pristine = {}
         \<and> imhtml_skipped s2 =
             {(GDK_KP_Page_Down, GDK_CONTROL_MASK), (GDK_KP_Page_Up, GDK_CONTROL_MASK),
              (GDK_Page_Down, GDK_CONTROL_MASK), (GDK_Page_Up, GDK_CONTROL_MASK),
              (GDK_Down, GDK_CONTROL_MASK), (GDK_Up, GDK_CONTROL_MASK)}
         \<and> imhtml_skipped s2 \<noteq> imhtml_skipped pristine"
proof -
  have u: "pwm_blist_get_convs pristine blist0 = None"
    by (simp add: slot_defs pristine_def)
  have l: "bl_notebook blist0 < next_obj pristine"
    by (simp add: pristine_def blist0_def)
  have e: "imhtml_skipped pristine = {}"
    by (simp add: pristine_def)
  obtain s1 where s1: "pwm_merge_conversation pristine blist0 = Some s1"
    and k: "imhtml_skipped s1 =
             {(GDK_KP_Page_Down, GDK_CONTROL_MASK), (GDK_KP_Page_Up, GDK_CONTROL_MASK),
              (GDK_Page_Down, GDK_CONTROL_MASK), (GDK_Page_Up, GDK_CONTROL_MASK),
              (GDK_Down, GDK_CONTROL_MASK), (GDK_Up, GDK_CONTROL_MASK)}"
    and w: "windows s1 (next_win pristine) =
              Some \<lparr>cw_window = Some (bl_window blist0),
                    cw_notebook = Suc (Suc (Suc (next_obj pristine))),
                    cw_menubar = Suc (Suc (next_obj pristine))\<rparr>"
    and d: "object_data s1 (bl_notebook blist0) ''pwm_convs'' = Some (ConvWin (next_win pristine))"
    using merge_result [OF u l] unfolding e by auto
  have m: "conv_window_of s1 (pwm_blist_get_convs s1 blist0)
             = Some (next_win pristine,
                     \<lparr>cw_window = Some (bl_window blist0),
                      cw_notebook = Suc (Suc (Suc (next_obj pristine))),
                      cw_menubar = Suc (Suc (next_obj pristine))\<rparr>)"
    by (simp add: conv_window_of_def slot_defs d w)
  obtain s2 where s2: "pwm_split_conversation s1 blist0 = Some s2"
    using split_succeeds [OF m] by blast
  have "imhtml_skipped s2 = imhtml_skipped s1"
    using split_imhtml_skipped [OF m] s2 by simp
  moreover have "pwm_blist_get_convs s2 blist0 = None"
    using split_object_data [OF m, of "bl_notebook blist0" "''pwm_convs''"] s2
    by (simp add: slot_defs)
  ultimately show ?thesis
    using s1 s2 e k by auto
qed

end
